theory Spec2Isabelle
  imports Main "HOL-Library.Multiset"
begin

section \<open>Data model\<close>

text \<open>
  Modelled from the spec: the row types of the six tables, which the storage layer
  (\<^verbatim>\<open>DatabaseStorage\<close>) and the route handlers (\<^verbatim>\<open>registerRoutes\<close>) work on. The table
  declarations live in \<^verbatim>\<open>@shared/schema\<close>, which is not among the sources; the rows below
  follow section 3 of the specification and keep the names of the columns that the
  storage layer and the routes use (\<^verbatim>\<open>id\<close>, \<^verbatim>\<open>userId\<close>, \<^verbatim>\<open>coinBalance\<close>, \<^verbatim>\<open>coinsEarned\<close>,
  \<^verbatim>\<open>coinsUsed\<close>, \<^verbatim>\<open>status\<close>, \<^verbatim>\<open>isActive\<close>, \<^verbatim>\<open>isRead\<close>, \<^verbatim>\<open>appointmentDate\<close>, \<^verbatim>\<open>serviceTitle\<close>,
  \<^verbatim>\<open>createdAt\<close>, \<^verbatim>\<open>updatedAt\<close>, \<^verbatim>\<open>amount\<close>, \<^verbatim>\<open>type\<close>, \<^verbatim>\<open>description\<close>, \<^verbatim>\<open>relatedId\<close>,
  \<^verbatim>\<open>senderRole\<close>). Coin amounts are integers (a balance may be any integer: the storage
  layer does not keep it non-negative), time stamps are integers (milliseconds),
  identifiers are strings; columns hold a value (no \<^verbatim>\<open>NULL\<close>), except \<^verbatim>\<open>relatedId\<close>.
  Field names are shared between the tables, so they are written qualified
  (\<open>user.id\<close>, \<open>appointment.userId\<close>).
\<close>

record user =
  id :: string
  email :: string
  firstName :: string
  lastName :: string
  profileImageUrl :: string
  coinBalance :: int
  createdAt :: int
  updatedAt :: int

record appointment =
  id :: string
  userId :: string
  serviceTitle :: string
  appointmentDate :: int
  coinsEarned :: int
  status :: string
  createdAt :: int

record product =
  id :: string
  title :: string
  description :: string
  price :: int
  isActive :: bool
  createdAt :: int
  updatedAt :: int

record order =
  id :: string
  userId :: string
  items :: string
  total :: int
  coinsUsed :: int
  createdAt :: int

record message =
  id :: string
  userId :: string
  senderRole :: string
  body :: string
  isRead :: bool
  createdAt :: int

text \<open>
  The description of a coin transaction is free text. The two texts that the routes
  write are template strings around a number and a service title; they are kept as the
  template with its arguments.
\<close>

datatype description_text =
  Earned_for_booking int string
  | Redeemed_for_purchase int
  | Free_text string

record coin_transaction =
  id :: string
  userId :: string
  amount :: int
  type :: string
  description :: description_text
  relatedId :: "string option"
  createdAt :: int

text \<open>
  Modelled from the spec: the insertable shapes (\<^verbatim>\<open>UpsertUser\<close>, \<^verbatim>\<open>InsertAppointment\<close>, ...)
  are a subset of the row's fields; the server fills the id and the time stamps.
  A field of type \<open>option\<close> may be left out by the caller (\<open>None\<close>), and the database
  then fills the column's default.
\<close>

record upsert_user =
  id :: string
  email :: "string option"
  firstName :: "string option"
  lastName :: "string option"
  profileImageUrl :: "string option"
  coinBalance :: "int option"

record insert_appointment =
  userId :: string
  serviceTitle :: string
  appointmentDate :: int
  coinsEarned :: "int option"
  status :: "string option"

record insert_product =
  title :: string
  description :: string
  price :: int
  isActive :: "bool option"

record insert_order =
  userId :: string
  items :: string
  total :: int
  coinsUsed :: int

record insert_message =
  userId :: string
  senderRole :: string
  body :: string
  isRead :: "bool option"

record insert_coin_transaction =
  userId :: string
  amount :: int
  type :: string
  description :: description_text
  relatedId :: "string option"

text \<open>The database \<^verbatim>\<open>db\<close>: one list of rows per table, in insertion order.\<close>

record db =
  users :: "user list"
  appointments :: "appointment list"
  products :: "product list"
  orders :: "order list"
  messages :: "message list"
  coinTransactions :: "coin_transaction list"

section \<open>Query building blocks\<close>

text \<open>\<^verbatim>\<open>const [row] = await ...\<close>: the first row of the result, \<^verbatim>\<open>undefined\<close> when there is none.\<close>

definition first_row :: "'a list \<Rightarrow> 'a option" where
  "first_row rows = (case rows of [] \<Rightarrow> None | r # _ \<Rightarrow> Some r)"

text \<open>
  \<^verbatim>\<open>.orderBy(desc(column))\<close>: the rows sorted by the column, greatest first. Rows with equal
  keys keep their table order here; the database leaves their order open, and nothing
  below depends on it.
\<close>

definition orderBy_desc :: "('a \<Rightarrow> int) \<Rightarrow> 'a list \<Rightarrow> 'a list" where
  "orderBy_desc column rows = sort_key (\<lambda>r. - column r) rows"

definition or_default :: "'a option \<Rightarrow> 'a \<Rightarrow> 'a" where
  "or_default provided dflt = (case provided of None \<Rightarrow> dflt | Some v \<Rightarrow> v)"

section \<open>The storage layer (\<^verbatim>\<open>DatabaseStorage\<close>)\<close>

text \<open>
  Every operation takes the database and returns its result, and the new database when
  it writes. Values that the database or the clock supply (generated ids, column
  defaults, \<^verbatim>\<open>new Date()\<close>) are arguments: an insert takes the row \<open>gen\<close> of the values that
  the database generates for the columns the caller leaves out.
\<close>

subsection \<open>Users\<close>

definition getUser :: "string \<Rightarrow> db \<Rightarrow> user option" where
  "getUser i d = first_row (filter (\<lambda>u. user.id u = i) (users d))"

definition overwrite_user :: "upsert_user \<Rightarrow> int \<Rightarrow> user \<Rightarrow> user" where
  "overwrite_user userData now u =
     u\<lparr>user.id := upsert_user.id userData,
       user.email := or_default (upsert_user.email userData) (user.email u),
       user.firstName := or_default (upsert_user.firstName userData) (user.firstName u),
       user.lastName := or_default (upsert_user.lastName userData) (user.lastName u),
       user.profileImageUrl :=
         or_default (upsert_user.profileImageUrl userData) (user.profileImageUrl u),
       user.coinBalance := or_default (upsert_user.coinBalance userData) (user.coinBalance u),
       user.updatedAt := now\<rparr>"

definition new_user :: "user \<Rightarrow> upsert_user \<Rightarrow> user" where
  "new_user gen userData =
     \<lparr>user.id = upsert_user.id userData,
      user.email = or_default (upsert_user.email userData) (user.email gen),
      user.firstName = or_default (upsert_user.firstName userData) (user.firstName gen),
      user.lastName = or_default (upsert_user.lastName userData) (user.lastName gen),
      user.profileImageUrl =
        or_default (upsert_user.profileImageUrl userData) (user.profileImageUrl gen),
      user.coinBalance = or_default (upsert_user.coinBalance userData) (user.coinBalance gen),
      user.createdAt = user.createdAt gen,
      user.updatedAt = user.updatedAt gen\<rparr>"

definition upsertUser :: "user \<Rightarrow> int \<Rightarrow> upsert_user \<Rightarrow> db \<Rightarrow> user option \<times> db" where
  "upsertUser gen now userData d =
     (let conflict = (\<lambda>u. user.id u = upsert_user.id userData);
          rows = (case filter conflict (users d) of
                    [] \<Rightarrow> users d @ [new_user gen userData]
                  | _ # _ \<Rightarrow>
                      map (\<lambda>u. if conflict u then overwrite_user userData now u else u) (users d))
      in (first_row (filter conflict rows), d\<lparr>users := rows\<rparr>))"

definition updateUserCoins :: "int \<Rightarrow> string \<Rightarrow> int \<Rightarrow> db \<Rightarrow> user option \<times> db" where
  "updateUserCoins now uid amt d =
     (let rows = map (\<lambda>u. if user.id u = uid
                           then u\<lparr>user.coinBalance := user.coinBalance u + amt,
                                  user.updatedAt := now\<rparr>
                           else u) (users d)
      in (first_row (filter (\<lambda>u. user.id u = uid) rows), d\<lparr>users := rows\<rparr>))"

subsection \<open>Appointments\<close>

definition createAppointment :: "appointment \<Rightarrow> insert_appointment \<Rightarrow> db \<Rightarrow> appointment \<times> db" where
  "createAppointment gen a d =
     (let result =
        \<lparr>appointment.id = appointment.id gen,
         appointment.userId = insert_appointment.userId a,
         appointment.serviceTitle = insert_appointment.serviceTitle a,
         appointment.appointmentDate = insert_appointment.appointmentDate a,
         appointment.coinsEarned =
           or_default (insert_appointment.coinsEarned a) (appointment.coinsEarned gen),
         appointment.status = or_default (insert_appointment.status a) (appointment.status gen),
         appointment.createdAt = appointment.createdAt gen\<rparr>
      in (result, d\<lparr>appointments := appointments d @ [result]\<rparr>))"

definition getUserAppointments :: "string \<Rightarrow> db \<Rightarrow> appointment list" where
  "getUserAppointments uid d =
     orderBy_desc appointment.appointmentDate
       (filter (\<lambda>a. appointment.userId a = uid) (appointments d))"

definition getAllAppointments :: "db \<Rightarrow> appointment list" where
  "getAllAppointments d = orderBy_desc appointment.createdAt (appointments d)"

definition updateAppointmentStatus :: "string \<Rightarrow> string \<Rightarrow> db \<Rightarrow> appointment option \<times> db" where
  "updateAppointmentStatus i s d =
     (let rows = map (\<lambda>a. if appointment.id a = i then a\<lparr>appointment.status := s\<rparr> else a)
                   (appointments d)
      in (first_row (filter (\<lambda>a. appointment.id a = i) rows), d\<lparr>appointments := rows\<rparr>))"

subsection \<open>Products\<close>

definition getProducts :: "db \<Rightarrow> product list" where
  "getProducts d = orderBy_desc product.createdAt (filter (\<lambda>p. product.isActive p) (products d))"

definition getProduct :: "string \<Rightarrow> db \<Rightarrow> product option" where
  "getProduct i d = first_row (filter (\<lambda>p. product.id p = i) (products d))"

definition createProduct :: "product \<Rightarrow> insert_product \<Rightarrow> db \<Rightarrow> product \<times> db" where
  "createProduct gen p d =
     (let result =
        \<lparr>product.id = product.id gen,
         product.title = insert_product.title p,
         product.description = insert_product.description p,
         product.price = insert_product.price p,
         product.isActive = or_default (insert_product.isActive p) (product.isActive gen),
         product.createdAt = product.createdAt gen,
         product.updatedAt = product.updatedAt gen\<rparr>
      in (result, d\<lparr>products := products d @ [result]\<rparr>))"

subsection \<open>Orders\<close>

definition createOrder :: "order \<Rightarrow> insert_order \<Rightarrow> db \<Rightarrow> order \<times> db" where
  "createOrder gen ord d =
     (let result =
        \<lparr>order.id = order.id gen,
         order.userId = insert_order.userId ord,
         order.items = insert_order.items ord,
         order.total = insert_order.total ord,
         order.coinsUsed = insert_order.coinsUsed ord,
         order.createdAt = order.createdAt gen\<rparr>
      in (result, d\<lparr>orders := orders d @ [result]\<rparr>))"

definition getUserOrders :: "string \<Rightarrow> db \<Rightarrow> order list" where
  "getUserOrders uid d =
     orderBy_desc order.createdAt (filter (\<lambda>ord. order.userId ord = uid) (orders d))"

definition getAllOrders :: "db \<Rightarrow> order list" where
  "getAllOrders d = orderBy_desc order.createdAt (orders d)"

subsection \<open>Messages\<close>

definition createMessage :: "message \<Rightarrow> insert_message \<Rightarrow> db \<Rightarrow> message \<times> db" where
  "createMessage gen m d =
     (let result =
        \<lparr>message.id = message.id gen,
         message.userId = insert_message.userId m,
         message.senderRole = insert_message.senderRole m,
         message.body = insert_message.body m,
         message.isRead = or_default (insert_message.isRead m) (message.isRead gen),
         message.createdAt = message.createdAt gen\<rparr>
      in (result, d\<lparr>messages := messages d @ [result]\<rparr>))"

definition getUserMessages :: "string \<Rightarrow> db \<Rightarrow> message list" where
  "getUserMessages uid d =
     orderBy_desc message.createdAt (filter (\<lambda>m. message.userId m = uid) (messages d))"

definition getAdminMessages :: "db \<Rightarrow> message list" where
  "getAdminMessages d = orderBy_desc message.createdAt (messages d)"

subsection \<open>Coins\<close>

definition addCoinTransaction ::
  "coin_transaction \<Rightarrow> insert_coin_transaction \<Rightarrow> db \<Rightarrow> coin_transaction \<times> db" where
  "addCoinTransaction gen t d =
     (let result =
        \<lparr>coin_transaction.id = coin_transaction.id gen,
         coin_transaction.userId = insert_coin_transaction.userId t,
         coin_transaction.amount = insert_coin_transaction.amount t,
         coin_transaction.type = insert_coin_transaction.type t,
         coin_transaction.description = insert_coin_transaction.description t,
         coin_transaction.relatedId = insert_coin_transaction.relatedId t,
         coin_transaction.createdAt = coin_transaction.createdAt gen\<rparr>
      in (result, d\<lparr>coinTransactions := coinTransactions d @ [result]\<rparr>))"

definition getUserCoinTransactions :: "string \<Rightarrow> db \<Rightarrow> coin_transaction list" where
  "getUserCoinTransactions uid d =
     orderBy_desc coin_transaction.createdAt
       (filter (\<lambda>t. coin_transaction.userId t = uid) (coinTransactions d))"

section \<open>The route handlers (\<^verbatim>\<open>registerRoutes\<close>)\<close>

text \<open>
  A handler runs for an authenticated user (\<^verbatim>\<open>req.user.claims.sub\<close>, here \<open>uid\<close>) and a
  request body. It answers with \<^verbatim>\<open>res.json(value)\<close> or with a status and a message.
  The message of the insufficient-coins answer is a fixed Hebrew text of the source
  (\<open>Not_enough_coins\<close>); every other message is the text of the error that was caught,
  or the handler's fallback text when the error carries none.
\<close>

datatype message_text = Message string | Not_enough_coins

datatype 'a response = Json 'a | Status nat message_text

text \<open>
  Each \<^verbatim>\<open>await storage.f(...)\<close> in a handler may be rejected by the database (a violated
  constraint, a lost connection). A rejected call writes nothing and throws; the
  handler's \<^verbatim>\<open>catch\<close> answers with the error. Which call of a request is rejected, if
  any, and the text of its error, is an input of the request, together with the values
  the database and the clock supply.
\<close>

datatype storage_call =
  GetUser | UpdateUserCoins | AddCoinTransaction
  | CreateAppointment | CreateProduct | CreateOrder | CreateMessage

record env =
  clock :: int
  gen_appointment :: appointment
  gen_product :: product
  gen_order :: order
  gen_message :: message
  gen_transaction :: coin_transaction
  fault :: "(storage_call \<times> string) option"

definition await :: "env \<Rightarrow> storage_call \<Rightarrow> 'a \<Rightarrow> string + 'a" where
  "await e call result =
     (case fault e of
        None \<Rightarrow> Inr result
      | Some (rejected, err) \<Rightarrow> if rejected = call then Inl err else Inr result)"

text \<open>\<^verbatim>\<open>res.status(code).json({ message: error.message || fallback })\<close>\<close>

definition caught :: "nat \<Rightarrow> string \<Rightarrow> string \<Rightarrow> 'a response" where
  "caught code fallback err = Status code (Message (if err = [] then fallback else err))"

text \<open>
  The two ledger entries that the routes write (the object literals passed to
  \<^verbatim>\<open>storage.addCoinTransaction\<close>): the coins earned with a booking, and the coins redeemed
  with an order.
\<close>

definition earned_entry :: "string \<Rightarrow> appointment \<Rightarrow> insert_coin_transaction" where
  "earned_entry uid appt =
     \<lparr>insert_coin_transaction.userId = uid,
      insert_coin_transaction.amount = appointment.coinsEarned appt,
      insert_coin_transaction.type = ''earned_appointment'',
      insert_coin_transaction.description =
        Earned_for_booking (appointment.coinsEarned appt) (appointment.serviceTitle appt),
      insert_coin_transaction.relatedId = Some (appointment.id appt)\<rparr>"

definition redeemed_entry :: "string \<Rightarrow> insert_order \<Rightarrow> insert_coin_transaction" where
  "redeemed_entry uid data =
     \<lparr>insert_coin_transaction.userId = uid,
      insert_coin_transaction.amount = - insert_order.coinsUsed data,
      insert_coin_transaction.type = ''redeemed'',
      insert_coin_transaction.description = Redeemed_for_purchase (insert_order.coinsUsed data),
      insert_coin_transaction.relatedId = None\<rparr>"

text \<open>
  The validation schemas (\<^verbatim>\<open>insertAppointmentSchema\<close>, ...) are declared in
  \<^verbatim>\<open>@shared/schema\<close>; a handler takes the schema's \<^verbatim>\<open>parse\<close> as an argument: a function of
  the request body and the user id that is merged into it, which throws (\<open>Inl\<close>) or
  returns the insertable value.
\<close>

definition get_auth_user :: "env \<Rightarrow> string \<Rightarrow> db \<Rightarrow> user option response" where
  "get_auth_user e uid d =
     (case await e GetUser (getUser uid d) of
        Inl err \<Rightarrow> Status 500 (Message ''Failed to fetch user'')
      | Inr u \<Rightarrow> Json u)"

definition post_appointments ::
  "('b \<Rightarrow> string \<Rightarrow> string + insert_appointment) \<Rightarrow> env \<Rightarrow> string \<Rightarrow> 'b \<Rightarrow> db
     \<Rightarrow> appointment response \<times> db" where
  "post_appointments parse e uid req_body d =
     (case parse req_body uid of
        Inl err \<Rightarrow> (caught 400 ''Failed to create appointment'' err, d)
      | Inr data \<Rightarrow>
     (case await e CreateAppointment (createAppointment (gen_appointment e) data d) of
        Inl err \<Rightarrow> (caught 400 ''Failed to create appointment'' err, d)
      | Inr (appt, d1) \<Rightarrow>
     (case await e AddCoinTransaction
             (addCoinTransaction (gen_transaction e) (earned_entry uid appt) d1) of
        Inl err \<Rightarrow> (caught 400 ''Failed to create appointment'' err, d1)
      | Inr (_, d2) \<Rightarrow>
     (case await e UpdateUserCoins
             (updateUserCoins (clock e) uid (appointment.coinsEarned appt) d2) of
        Inl err \<Rightarrow> (caught 400 ''Failed to create appointment'' err, d2)
      | Inr (_, d3) \<Rightarrow> (Json appt, d3)))))"

definition post_admin_products ::
  "('b \<Rightarrow> string + insert_product) \<Rightarrow> env \<Rightarrow> 'b \<Rightarrow> db \<Rightarrow> product response \<times> db" where
  "post_admin_products parse e req_body d =
     (case parse req_body of
        Inl err \<Rightarrow> (caught 400 ''Failed to create product'' err, d)
      | Inr data \<Rightarrow>
     (case await e CreateProduct (createProduct (gen_product e) data d) of
        Inl err \<Rightarrow> (caught 400 ''Failed to create product'' err, d)
      | Inr (created, d1) \<Rightarrow> (Json created, d1)))"

text \<open>
  The coin part of \<^verbatim>\<open>POST /api/orders\<close> (the block under \<^verbatim>\<open>if (data.coinsUsed > 0)\<close>):
  \<open>Inl\<close> is the answer with which the handler returns or that its \<^verbatim>\<open>catch\<close> sends,
  \<open>Inr\<close> the database with which the handler goes on to create the order.
\<close>

definition deduct_coins :: "env \<Rightarrow> string \<Rightarrow> insert_order \<Rightarrow> db \<Rightarrow> (order response \<times> db) + db" where
  "deduct_coins e uid data d =
     (if insert_order.coinsUsed data > 0 then
        (case await e GetUser (getUser uid d) of
           Inl err \<Rightarrow> Inl (caught 400 ''Failed to create order'' err, d)
         | Inr found \<Rightarrow>
             if (case found of None \<Rightarrow> True
                 | Some u \<Rightarrow> user.coinBalance u < insert_order.coinsUsed data)
             then Inl (Status 400 Not_enough_coins, d)
             else
               (case await e UpdateUserCoins
                       (updateUserCoins (clock e) uid (- insert_order.coinsUsed data) d) of
                  Inl err \<Rightarrow> Inl (caught 400 ''Failed to create order'' err, d)
                | Inr (_, d1) \<Rightarrow>
               (case await e AddCoinTransaction
                       (addCoinTransaction (gen_transaction e) (redeemed_entry uid data) d1) of
                  Inl err \<Rightarrow> Inl (caught 400 ''Failed to create order'' err, d1)
                | Inr (_, d2) \<Rightarrow> Inr d2)))
      else Inr d)"

definition post_orders ::
  "('b \<Rightarrow> string \<Rightarrow> string + insert_order) \<Rightarrow> env \<Rightarrow> string \<Rightarrow> 'b \<Rightarrow> db
     \<Rightarrow> order response \<times> db" where
  "post_orders parse e uid req_body d =
     (case parse req_body uid of
        Inl err \<Rightarrow> (caught 400 ''Failed to create order'' err, d)
      | Inr data \<Rightarrow>
     (case deduct_coins e uid data d of
        Inl answer \<Rightarrow> answer
      | Inr d2 \<Rightarrow>
     (case await e CreateOrder (createOrder (gen_order e) data d2) of
        Inl err \<Rightarrow> (caught 400 ''Failed to create order'' err, d2)
      | Inr (created, d3) \<Rightarrow> (Json created, d3))))"

text \<open>The message schema parses the body with the user id and the role \<^verbatim>\<open>"customer"\<close> merged in.\<close>

definition post_messages ::
  "('b \<Rightarrow> string \<Rightarrow> string \<Rightarrow> string + insert_message) \<Rightarrow> env \<Rightarrow> string \<Rightarrow> 'b \<Rightarrow> db
     \<Rightarrow> message response \<times> db" where
  "post_messages parse e uid req_body d =
     (case parse req_body uid ''customer'' of
        Inl err \<Rightarrow> (caught 400 ''Failed to send message'' err, d)
      | Inr data \<Rightarrow>
     (case await e CreateMessage (createMessage (gen_message e) data d) of
        Inl err \<Rightarrow> (caught 400 ''Failed to send message'' err, d)
      | Inr (created, d1) \<Rightarrow> (Json created, d1)))"

section \<open>Sequences of coin-affecting requests and the ledger\<close>

text \<open>The sum of the amounts of a user's coin transactions.\<close>

definition coin_sum :: "string \<Rightarrow> db \<Rightarrow> int" where
  "coin_sum uid d =
     sum_list (map coin_transaction.amount
                 (filter (\<lambda>t. coin_transaction.userId t = uid) (coinTransactions d)))"

text \<open>
  The ledger invariant for the user \<open>U\<close>: the balance of \<open>U\<close> (of every user row with that
  id) is the sum of the amounts of the coin transactions of \<open>U\<close>.
\<close>

definition user_ledger_matches :: "string \<Rightarrow> db \<Rightarrow> bool" where
  "user_ledger_matches U d =
     list_all (\<lambda>u. coin_sum U d = user.coinBalance u) (filter (\<lambda>u. user.id u = U) (users d))"

text \<open>A coin-affecting request: its inputs from the environment, the user, the body.\<close>

datatype ('a, 'b) request =
  Post_appointment env string 'a
  | Post_order env string 'b

fun serve ::
  "('a \<Rightarrow> string \<Rightarrow> string + insert_appointment) \<Rightarrow> ('b \<Rightarrow> string \<Rightarrow> string + insert_order)
     \<Rightarrow> ('a, 'b) request \<Rightarrow> db \<Rightarrow> db" where
  "serve parse_appointment parse_order (Post_appointment e uid req_body) d =
     snd (post_appointments parse_appointment e uid req_body d)"
| "serve parse_appointment parse_order (Post_order e uid req_body) d =
     snd (post_orders parse_order e uid req_body d)"

fun serve_all ::
  "('a \<Rightarrow> string \<Rightarrow> string + insert_appointment) \<Rightarrow> ('b \<Rightarrow> string \<Rightarrow> string + insert_order)
     \<Rightarrow> ('a, 'b) request list \<Rightarrow> db \<Rightarrow> db" where
  "serve_all parse_appointment parse_order [] d = d"
| "serve_all parse_appointment parse_order (r # rs) d =
     serve_all parse_appointment parse_order rs (serve parse_appointment parse_order r d)"

text \<open>
  \<open>rejects e call\<close>: the database rejects that storage call of the request, with the error
  text \<open>fault_text e\<close>. \<open>fails_between_paired_writes\<close>: it rejects the second of the two
  paired coin writes of the request, that is the balance update of an appointment (which
  follows the ledger append), or the ledger append of an order (which follows the balance
  update).
\<close>

definition rejects :: "env \<Rightarrow> storage_call \<Rightarrow> bool" where
  "rejects e call = (case fault e of None \<Rightarrow> False | Some (rejected, err) \<Rightarrow> rejected = call)"

text \<open>The funds check of \<^verbatim>\<open>POST /api/orders\<close> passes: the user exists and has the coins.\<close>

definition enough_coins :: "string \<Rightarrow> insert_order \<Rightarrow> db \<Rightarrow> bool" where
  "enough_coins uid data d =
     (case getUser uid d of None \<Rightarrow> False
      | Some u \<Rightarrow> insert_order.coinsUsed data \<le> user.coinBalance u)"

definition fault_text :: "env \<Rightarrow> string" where
  "fault_text e = (case fault e of None \<Rightarrow> [] | Some (rejected, err) \<Rightarrow> err)"

fun fails_between_paired_writes :: "('a, 'b) request \<Rightarrow> bool" where
  "fails_between_paired_writes (Post_appointment e uid req_body) = rejects e UpdateUserCoins"
| "fails_between_paired_writes (Post_order e uid req_body) = rejects e AddCoinTransaction"

text \<open>The authenticated user of a request.\<close>

fun request_user :: "('a, 'b) request \<Rightarrow> string" where
  "request_user (Post_appointment e uid req_body) = uid"
| "request_user (Post_order e uid req_body) = uid"

section \<open>Validation schemas\<close>

text \<open>
  Modelled from the spec: \<^verbatim>\<open>insertOrderSchema\<close> and \<^verbatim>\<open>insertAppointmentSchema\<close> of
  \<^verbatim>\<open>@shared/schema\<close> (not among the sources). Section 7 of the specification names a
  negative coin amount as a validation failure; a body that passes is returned with the
  authenticated user id merged in (\<^verbatim>\<open>{ ...req.body, userId }\<close>). The request body is taken
  to have the insertable shape already.
\<close>

definition insertOrderSchema_parse :: "insert_order \<Rightarrow> string \<Rightarrow> string + insert_order" where
  "insertOrderSchema_parse req_body uid =
     (if insert_order.coinsUsed req_body < 0 then Inl ''Number must be greater than or equal to 0''
      else Inr (req_body\<lparr>insert_order.userId := uid\<rparr>))"

definition insertAppointmentSchema_parse ::
  "insert_appointment \<Rightarrow> string \<Rightarrow> string + insert_appointment" where
  "insertAppointmentSchema_parse req_body uid =
     (case insert_appointment.coinsEarned req_body of
        None \<Rightarrow> Inr (req_body\<lparr>insert_appointment.userId := uid\<rparr>)
      | Some c \<Rightarrow>
          if c < 0 then Inl ''Number must be greater than or equal to 0''
          else Inr (req_body\<lparr>insert_appointment.userId := uid\<rparr>))"

section \<open>Example data\<close>

subsection \<open>A small database\<close>

definition alice :: user where
  "alice = \<lparr>user.id = ''alice'', user.email = ''alice@example.org'', user.firstName = ''Alice'',
            user.lastName = ''A'', user.profileImageUrl = [], user.coinBalance = 100,
            user.createdAt = 1000, user.updatedAt = 1000\<rparr>"

definition soap :: product where
  "soap = \<lparr>product.id = ''p1'', product.title = ''Soap'', product.description = ''A bar'',
           product.price = 25, product.isActive = False, product.createdAt = 1100,
           product.updatedAt = 1200\<rparr>"

definition haircut :: appointment where
  "haircut = \<lparr>appointment.id = ''a1'', appointment.userId = ''alice'',
              appointment.serviceTitle = ''Haircut'', appointment.appointmentDate = 5000,
              appointment.coinsEarned = 20, appointment.status = ''created'',
              appointment.createdAt = 1300\<rparr>"

definition signup_bonus :: coin_transaction where
  "signup_bonus = \<lparr>coin_transaction.id = ''t1'', coin_transaction.userId = ''alice'',
                   coin_transaction.amount = 100, coin_transaction.type = ''bonus'',
                   coin_transaction.description = Free_text ''welcome'',
                   coin_transaction.relatedId = None, coin_transaction.createdAt = 1000\<rparr>"

definition shop_db :: db where
  "shop_db = \<lparr>users = [alice], appointments = [haircut], products = [soap], orders = [],
              messages = [], coinTransactions = [signup_bonus]\<rparr>"

text \<open>
  The same database with a second user, whose balance of 5 has no ledger entry behind
  it.
\<close>

definition bob :: user where
  "bob = \<lparr>user.id = ''bob'', user.email = ''bob@example.org'', user.firstName = ''Bob'',
          user.lastName = ''B'', user.profileImageUrl = [], user.coinBalance = 5,
          user.createdAt = 1500, user.updatedAt = 1500\<rparr>"

definition two_user_db :: db where
  "two_user_db = shop_db\<lparr>users := [alice, bob]\<rparr>"

subsection \<open>Requests\<close>

definition order_body :: "int \<Rightarrow> insert_order" where
  "order_body coins =
     \<lparr>insert_order.userId = [], insert_order.items = ''soap'', insert_order.total = 25,
      insert_order.coinsUsed = coins\<rparr>"

definition booking_body :: "int \<Rightarrow> insert_appointment" where
  "booking_body coins =
     \<lparr>insert_appointment.userId = [], insert_appointment.serviceTitle = ''Haircut'',
      insert_appointment.appointmentDate = 9000, insert_appointment.coinsEarned = Some coins,
      insert_appointment.status = None\<rparr>"

definition example_env :: "(storage_call \<times> string) option \<Rightarrow> env" where
  "example_env f =
     \<lparr>clock = 2000,
      gen_appointment =
        \<lparr>appointment.id = ''a2'', appointment.userId = [], appointment.serviceTitle = [],
         appointment.appointmentDate = 0, appointment.coinsEarned = 0,
         appointment.status = ''created'', appointment.createdAt = 2000\<rparr>,
      gen_product =
        \<lparr>product.id = ''p2'', product.title = [], product.description = [], product.price = 0,
         product.isActive = True, product.createdAt = 2000, product.updatedAt = 2000\<rparr>,
      gen_order =
        \<lparr>order.id = ''o1'', order.userId = [], order.items = [], order.total = 0,
         order.coinsUsed = 0, order.createdAt = 2000\<rparr>,
      gen_message =
        \<lparr>message.id = ''m1'', message.userId = [], message.senderRole = [], message.body = [],
         message.isRead = False, message.createdAt = 2000\<rparr>,
      gen_transaction =
        \<lparr>coin_transaction.id = ''t2'', coin_transaction.userId = [], coin_transaction.amount = 0,
         coin_transaction.type = [], coin_transaction.description = Free_text [],
         coin_transaction.relatedId = None, coin_transaction.createdAt = 2000\<rparr>,
      fault = f\<rparr>"

text \<open>The environment of a later request: a later clock and fresh generated ids.\<close>

definition later_env :: "string \<Rightarrow> int \<Rightarrow> (storage_call \<times> string) option \<Rightarrow> env" where
  "later_env n now f =
     (example_env f)
       \<lparr>clock := now,
        gen_appointment :=
          (gen_appointment (example_env f))
            \<lparr>appointment.id := ''a'' @ n, appointment.createdAt := now\<rparr>,
        gen_order :=
          (gen_order (example_env f))\<lparr>order.id := ''o'' @ n, order.createdAt := now\<rparr>,
        gen_transaction :=
          (gen_transaction (example_env f))
            \<lparr>coin_transaction.id := ''t'' @ n, coin_transaction.createdAt := now\<rparr>\<rparr>"

section \<open>Facts about the query building blocks\<close>

lemma first_row_filter_map:
  assumes "\<And>r. P (f r) = P r"
  shows "first_row (filter P (map f rows)) = map_option f (first_row (filter P rows))"
  using assms by (induction rows) (auto simp: first_row_def)

lemma first_row_filter_Some:
  "x \<in> set rows \<Longrightarrow> P x \<Longrightarrow> \<exists>r. first_row (filter P rows) = Some r \<and> P r \<and> r \<in> set rows"
  by (induction rows) (auto simp: first_row_def)

lemma first_row_filter_SomeD:
  "first_row (filter P rows) = Some r \<Longrightarrow> P r \<and> r \<in> set rows"
  by (induction rows) (auto simp: first_row_def split: if_splits)

lemma map_unchanged: "(\<And>r. r \<in> set rows \<Longrightarrow> f r = r) \<Longrightarrow> map f rows = rows"
  by (induction rows) auto

lemma filter_unique_key:
  "distinct (map f xs) \<Longrightarrow> x \<in> set xs \<Longrightarrow> filter (\<lambda>y. f y = f x) xs = [x]"
proof (induction xs)
  case Nil
  then show ?case by simp
next
  case (Cons a xs)
  show ?case
  proof (cases "a = x")
    case True
    with Cons.prems have "\<forall>y \<in> set xs. f y \<noteq> f x"
      by (metis distinct.simps(2) image_eqI list.simps(9) set_map)
    then have "filter (\<lambda>y. f y = f x) xs = []" by (simp add: filter_empty_conv)
    with True show ?thesis by simp
  next
    case False
    with Cons.prems have "x \<in> set xs" "f a \<noteq> f x" by auto
    with Cons show ?thesis by simp
  qed
qed

lemma orderBy_desc_sorted:
  "sorted_wrt (\<lambda>a b. column b \<le> column a) (orderBy_desc column rows)"
proof -
  have "sorted (map (\<lambda>r. - column r) (sort_key (\<lambda>r. - column r) rows))"
    by (rule sorted_sort_key)
  then show ?thesis
    by (simp add: orderBy_desc_def sorted_map)
qed

lemma orderBy_desc_mset: "mset (orderBy_desc column rows) = mset rows"
  by (simp add: orderBy_desc_def)

lemma getUser_None_iff: "getUser uid d = None \<longleftrightarrow> uid \<notin> set (map user.id (users d))"
proof
  assume "getUser uid d = None"
  then show "uid \<notin> set (map user.id (users d))"
    using first_row_filter_Some [of _ "users d" "\<lambda>u. user.id u = uid"]
    by (auto simp: getUser_def)
next
  assume "uid \<notin> set (map user.id (users d))"
  then have "filter (\<lambda>u. user.id u = uid) (users d) = []"
    by (auto simp: filter_empty_conv)
  then show "getUser uid d = None" by (simp add: getUser_def first_row_def)
qed

lemma getUser_SomeD: "getUser uid d = Some u \<Longrightarrow> user.id u = uid \<and> u \<in> set (users d)"
  unfolding getUser_def by (auto dest: first_row_filter_SomeD)

section \<open>Reads of a missing row\<close>

text \<open>
  C9. A single-row read for an id that no row has returns the absent value: \<open>getUser\<close>
  and \<open>getProduct\<close> return \<open>None\<close> (the source's \<^verbatim>\<open>undefined\<close>), they do not throw, and the
  route that reads the signed-in user answers with that absent value as a normal JSON
  answer, not with an error status, when the database executes the query.
\<close>

theorem missing_row_is_absent:
  assumes "i \<notin> set (map user.id (users d))"
    and "j \<notin> set (map product.id (products d))"
  shows "getUser i d = None \<and> getProduct j d = None
         \<and> (fault e = None \<longrightarrow> get_auth_user e i d = Json None)"
proof -
  have "filter (\<lambda>u. user.id u = i) (users d) = []"
    using assms(1) by (auto simp: filter_empty_conv)
  moreover have "filter (\<lambda>p. product.id p = j) (products d) = []"
    using assms(2) by (auto simp: filter_empty_conv)
  ultimately show ?thesis
    by (simp add: getUser_def getProduct_def get_auth_user_def await_def first_row_def)
qed

theorem missing_row_is_absent_witness:
  "''bob'' \<notin> set (map user.id (users shop_db))
   \<and> ''p9'' \<notin> set (map product.id (products shop_db))
   \<and> fault (example_env None) = None
   \<and> getUser ''bob'' shop_db = None \<and> getProduct ''p9'' shop_db = None
   \<and> get_auth_user (example_env None) ''bob'' shop_db = Json None"
proof -
  have u: "''bob'' \<notin> set (map user.id (users shop_db))"
    by (simp add: shop_db_def alice_def)
  have p: "''p9'' \<notin> set (map product.id (products shop_db))"
    by (simp add: shop_db_def soap_def)
  have f: "fault (example_env None) = None"
    by (simp add: example_env_def)
  from missing_row_is_absent [OF u p, where e = "example_env None"] u p f
  show ?thesis by simp
qed

section \<open>Products: the visibility flag\<close>

text \<open>
  C7. Product ids are the table's key (no two rows share one). A stored product whose
  \<open>isActive\<close> is false is not among the result of \<open>getProducts\<close>, the listing of active
  products; that listing holds exactly the stored products with \<open>isActive\<close> true (each
  once); and \<open>getProduct\<close> with the product's id still returns the product.
\<close>

theorem inactive_product_hidden_but_retrievable:
  assumes "P \<in> set (products d)"
    and "\<not> product.isActive P"
    and "distinct (map product.id (products d))"
  shows "P \<notin> set (getProducts d)
         \<and> mset (getProducts d) = mset (filter product.isActive (products d))
         \<and> getProduct (product.id P) d = Some P"
proof -
  have m: "mset (getProducts d) = mset (filter product.isActive (products d))"
    by (simp add: getProducts_def orderBy_desc_mset)
  have "set (getProducts d) = set (filter product.isActive (products d))"
    by (simp add: getProducts_def orderBy_desc_def)
  with assms(2) have "P \<notin> set (getProducts d)" by simp
  moreover have "getProduct (product.id P) d = Some P"
    using filter_unique_key [OF assms(3) assms(1)] by (simp add: getProduct_def first_row_def)
  ultimately show ?thesis using m by simp
qed

theorem inactive_product_hidden_but_retrievable_witness:
  "soap \<in> set (products shop_db) \<and> \<not> product.isActive soap
   \<and> distinct (map product.id (products shop_db))
   \<and> soap \<notin> set (getProducts shop_db) \<and> getProduct ''p1'' shop_db = Some soap"
proof -
  have a: "soap \<in> set (products shop_db)" by (simp add: shop_db_def)
  have b: "\<not> product.isActive soap" by (simp add: soap_def)
  have c: "distinct (map product.id (products shop_db))" by (simp add: shop_db_def)
  have "product.id soap = ''p1''" by (simp add: soap_def)
  with inactive_product_hidden_but_retrievable [OF a b c] a b c show ?thesis by simp
qed

section \<open>Ordering of the list operations\<close>

text \<open>
  C8. Every list operation returns its rows in a fixed order: by creation time, latest
  first, except \<open>getUserAppointments\<close>, which orders by appointment date, latest first.
  Each listing holds exactly the rows that its filter selects.
\<close>

theorem list_operations_ordered:
  "sorted_wrt (\<lambda>a b. appointment.appointmentDate b \<le> appointment.appointmentDate a)
     (getUserAppointments uid d)
   \<and> sorted_wrt (\<lambda>a b. appointment.createdAt b \<le> appointment.createdAt a) (getAllAppointments d)
   \<and> sorted_wrt (\<lambda>a b. product.createdAt b \<le> product.createdAt a) (getProducts d)
   \<and> sorted_wrt (\<lambda>a b. order.createdAt b \<le> order.createdAt a) (getUserOrders uid d)
   \<and> sorted_wrt (\<lambda>a b. order.createdAt b \<le> order.createdAt a) (getAllOrders d)
   \<and> sorted_wrt (\<lambda>a b. message.createdAt b \<le> message.createdAt a) (getUserMessages uid d)
   \<and> sorted_wrt (\<lambda>a b. message.createdAt b \<le> message.createdAt a) (getAdminMessages d)
   \<and> sorted_wrt (\<lambda>a b. coin_transaction.createdAt b \<le> coin_transaction.createdAt a)
        (getUserCoinTransactions uid d)
   \<and> mset (getUserAppointments uid d)
        = mset (filter (\<lambda>a. appointment.userId a = uid) (appointments d))
   \<and> mset (getAllAppointments d) = mset (appointments d)
   \<and> mset (getProducts d) = mset (filter product.isActive (products d))
   \<and> mset (getUserOrders uid d) = mset (filter (\<lambda>r. order.userId r = uid) (orders d))
   \<and> mset (getAllOrders d) = mset (orders d)
   \<and> mset (getUserMessages uid d) = mset (filter (\<lambda>m. message.userId m = uid) (messages d))
   \<and> mset (getAdminMessages d) = mset (messages d)
   \<and> mset (getUserCoinTransactions uid d)
        = mset (filter (\<lambda>t. coin_transaction.userId t = uid) (coinTransactions d))"
  unfolding getUserAppointments_def getAllAppointments_def getProducts_def getUserOrders_def
    getAllOrders_def getUserMessages_def getAdminMessages_def getUserCoinTransactions_def
  by (intro conjI orderBy_desc_sorted orderBy_desc_mset)

section \<open>Changing the status of an appointment\<close>

text \<open>
  C10. For an appointment id that is in the store and any string \<open>s\<close> whatsoever,
  \<open>updateAppointmentStatus\<close> stores \<open>s\<close> as the status of that appointment and returns
  the appointment with only its status replaced; no check against the lifecycle values
  is made. The table keeps its length; at every position the row is the old row, with
  the status replaced when the row has the id and unchanged otherwise; and the other
  five tables are unchanged.
\<close>

theorem updateAppointmentStatus_frame:
  assumes "i \<in> set (map appointment.id (appointments d))"
  shows "(\<exists>a. first_row (filter (\<lambda>a. appointment.id a = i) (appointments d)) = Some a
              \<and> fst (updateAppointmentStatus i s d) = Some (a\<lparr>appointment.status := s\<rparr>))
         \<and> length (appointments (snd (updateAppointmentStatus i s d))) = length (appointments d)
         \<and> (\<forall>k < length (appointments d).
               appointments (snd (updateAppointmentStatus i s d)) ! k =
                 (if appointment.id (appointments d ! k) = i
                  then (appointments d ! k)\<lparr>appointment.status := s\<rparr>
                  else appointments d ! k))
         \<and> users (snd (updateAppointmentStatus i s d)) = users d
         \<and> products (snd (updateAppointmentStatus i s d)) = products d
         \<and> orders (snd (updateAppointmentStatus i s d)) = orders d
         \<and> messages (snd (updateAppointmentStatus i s d)) = messages d
         \<and> coinTransactions (snd (updateAppointmentStatus i s d)) = coinTransactions d"
proof -
  let ?set = "\<lambda>a. if appointment.id a = i then a\<lparr>appointment.status := s\<rparr> else a"
  from assms obtain x where "x \<in> set (appointments d)" "appointment.id x = i" by auto
  then obtain a where a: "first_row (filter (\<lambda>a. appointment.id a = i) (appointments d)) = Some a"
    and ai: "appointment.id a = i"
    using first_row_filter_Some [of x "appointments d" "\<lambda>a. appointment.id a = i"] by blast
  have "first_row (filter (\<lambda>a. appointment.id a = i) (map ?set (appointments d)))
        = map_option ?set (first_row (filter (\<lambda>a. appointment.id a = i) (appointments d)))"
    by (rule first_row_filter_map) simp
  with a ai have "fst (updateAppointmentStatus i s d) = Some (a\<lparr>appointment.status := s\<rparr>)"
    by (simp add: updateAppointmentStatus_def Let_def)
  with a show ?thesis
    by (simp add: updateAppointmentStatus_def Let_def)
qed

theorem updateAppointmentStatus_frame_witness:
  "''a1'' \<in> set (map appointment.id (appointments shop_db))
   \<and> fst (updateAppointmentStatus ''a1'' ''no such state'' shop_db)
       = Some (haircut\<lparr>appointment.status := ''no such state''\<rparr>)
   \<and> appointments (snd (updateAppointmentStatus ''a1'' ''no such state'' shop_db))
       = [haircut\<lparr>appointment.status := ''no such state''\<rparr>]
   \<and> users (snd (updateAppointmentStatus ''a1'' ''no such state'' shop_db)) = [alice]"
proof -
  have h: "''a1'' \<in> set (map appointment.id (appointments shop_db))"
    by (simp add: shop_db_def haircut_def)
  have a: "first_row (filter (\<lambda>a. appointment.id a = ''a1'') (appointments shop_db)) = Some haircut"
    by (simp add: shop_db_def haircut_def first_row_def)
  have k: "(0::nat) < length (appointments shop_db)" by (simp add: shop_db_def)
  have z: "appointments shop_db ! 0 = haircut" "appointment.id haircut = ''a1''"
    "users shop_db = [alice]" "length (appointments shop_db) = 1"
    by (simp_all add: shop_db_def haircut_def)
  from updateAppointmentStatus_frame [OF h, of "''no such state''"]
  have f: "fst (updateAppointmentStatus ''a1'' ''no such state'' shop_db)
             = Some (haircut\<lparr>appointment.status := ''no such state''\<rparr>)"
    and l: "length (appointments (snd (updateAppointmentStatus ''a1'' ''no such state'' shop_db))) = 1"
    and n: "appointments (snd (updateAppointmentStatus ''a1'' ''no such state'' shop_db)) ! 0
             = haircut\<lparr>appointment.status := ''no such state''\<rparr>"
    and u: "users (snd (updateAppointmentStatus ''a1'' ''no such state'' shop_db)) = [alice]"
    using a k z by auto
  from l n have "appointments (snd (updateAppointmentStatus ''a1'' ''no such state'' shop_db))
             = [haircut\<lparr>appointment.status := ''no such state''\<rparr>]"
    by (cases "appointments (snd (updateAppointmentStatus ''a1'' ''no such state'' shop_db))") auto
  with h f u show ?thesis by simp
qed

section \<open>Adjusting a balance\<close>

lemma updateUserCoins_fst:
  "fst (updateUserCoins now uid delta d) =
     map_option (\<lambda>u. u\<lparr>user.coinBalance := user.coinBalance u + delta, user.updatedAt := now\<rparr>)
       (getUser uid d)"
proof -
  let ?add = "\<lambda>u. if user.id u = uid
                   then u\<lparr>user.coinBalance := user.coinBalance u + delta, user.updatedAt := now\<rparr>
                   else u"
  have "first_row (filter (\<lambda>u. user.id u = uid) (map ?add (users d)))
        = map_option ?add (getUser uid d)"
    unfolding getUser_def by (rule first_row_filter_map) simp
  moreover have "map_option ?add (getUser uid d) =
     map_option (\<lambda>u. u\<lparr>user.coinBalance := user.coinBalance u + delta, user.updatedAt := now\<rparr>)
       (getUser uid d)"
    by (cases "getUser uid d") (auto simp: getUser_def dest: first_row_filter_SomeD)
  ultimately show ?thesis by (simp add: updateUserCoins_def Let_def)
qed

lemma updateUserCoins_snd:
  "snd (updateUserCoins now uid delta d) =
     d\<lparr>users := map (\<lambda>u. if user.id u = uid
                           then u\<lparr>user.coinBalance := user.coinBalance u + delta,
                                  user.updatedAt := now\<rparr>
                           else u) (users d)\<rparr>"
  by (simp add: updateUserCoins_def Let_def)

lemma updateUserCoins_missing:
  assumes "getUser uid d = None"
  shows "updateUserCoins now uid delta d = (None, d)"
proof -
  have "map (\<lambda>u. if user.id u = uid
                  then u\<lparr>user.coinBalance := user.coinBalance u + delta, user.updatedAt := now\<rparr>
                  else u) (users d) = users d"
    using assms by (intro map_unchanged) (auto simp: getUser_None_iff)
  then have "snd (updateUserCoins now uid delta d) = d"
    by (simp add: updateUserCoins_snd)
  moreover have "fst (updateUserCoins now uid delta d) = None"
    using assms by (simp add: updateUserCoins_fst)
  ultimately show ?thesis by (simp add: prod_eq_iff)
qed

text \<open>
  C4 (as amended). \<open>updateUserCoins\<close> adds the amount to the balance that the row has in
  the database when the update runs (it takes the amount alone, never a balance read
  before), and refreshes the row's update time stamp. When a user with the id exists it
  returns the updated row, which a following \<open>getUser\<close> reads back. When no user has the id
  it does not fail: it returns the absent value and leaves the database as it was.
  Every balance is the old one, plus the amount for the rows with the id; no other table
  changes.
\<close>

theorem updateUserCoins_relative:
  "(case getUser uid d of
      Some u \<Rightarrow>
        fst (updateUserCoins now uid delta d)
          = Some (u\<lparr>user.coinBalance := user.coinBalance u + delta, user.updatedAt := now\<rparr>)
        \<and> getUser uid (snd (updateUserCoins now uid delta d))
          = Some (u\<lparr>user.coinBalance := user.coinBalance u + delta, user.updatedAt := now\<rparr>)
    | None \<Rightarrow> updateUserCoins now uid delta d = (None, d))
   \<and> map user.coinBalance (users (snd (updateUserCoins now uid delta d)))
       = map (\<lambda>u. if user.id u = uid then user.coinBalance u + delta else user.coinBalance u)
           (users d)
   \<and> snd (updateUserCoins now uid delta d)
       = d\<lparr>users := users (snd (updateUserCoins now uid delta d))\<rparr>"
proof -
  have a: "getUser uid (snd (updateUserCoins now uid delta d)) = fst (updateUserCoins now uid delta d)"
    by (simp add: getUser_def updateUserCoins_def Let_def)
  have b: "map user.coinBalance (users (snd (updateUserCoins now uid delta d)))
       = map (\<lambda>u. if user.id u = uid then user.coinBalance u + delta else user.coinBalance u)
           (users d)"
    by (simp add: updateUserCoins_snd comp_def if_distrib cong: if_cong)
  have c: "snd (updateUserCoins now uid delta d)
       = d\<lparr>users := users (snd (updateUserCoins now uid delta d))\<rparr>"
    by (simp add: updateUserCoins_snd)
  show ?thesis
  proof (cases "getUser uid d")
    case None
    then show ?thesis using b c by (simp add: updateUserCoins_missing)
  next
    case (Some u)
    then show ?thesis using a b c by (simp add: updateUserCoins_fst)
  qed
qed

text \<open>
  C4 as stated fails: for an id that no user has, \<open>updateUserCoins\<close> returns normally,
  with the absent value (\<^verbatim>\<open>undefined\<close>) as its result and the database unchanged.
\<close>

theorem updateUserCoins_missing_user_counterexample:
  "getUser ''bob'' shop_db = None
   \<and> updateUserCoins 2000 ''bob'' 5 shop_db = (None, shop_db)"
  by (simp add: updateUserCoins_def getUser_def Let_def shop_db_def alice_def first_row_def)

theorem updateUserCoins_relative_witness:
  "fst (updateUserCoins 2000 ''alice'' (- 30) shop_db)
     = Some (alice\<lparr>user.coinBalance := 70, user.updatedAt := 2000\<rparr>)
   \<and> map user.coinBalance (users (snd (updateUserCoins 2000 ''alice'' (- 30) shop_db))) = [70]"
proof -
  have g: "getUser ''alice'' shop_db = Some alice"
    by (simp add: getUser_def shop_db_def alice_def first_row_def)
  have b: "user.coinBalance alice = 100" "user.id alice = ''alice''" "users shop_db = [alice]"
    by (simp_all add: alice_def shop_db_def)
  from updateUserCoins_relative [where uid = "''alice''" and d = shop_db and now = 2000 and delta = "- 30"] g b
  show ?thesis by simp
qed

section \<open>Upserting a user\<close>

lemma overwrite_user_id: "user.id (overwrite_user userData now u) = upsert_user.id userData"
  by (simp add: overwrite_user_def)

lemma new_user_id: "user.id (new_user gen userData) = upsert_user.id userData"
  by (simp add: new_user_def)

lemma or_default_twice: "or_default p (or_default p x) = or_default p x"
  by (cases p) (simp_all add: or_default_def)

lemma overwrite_user_twice:
  "overwrite_user userData now2 (overwrite_user userData now1 u)
     = (overwrite_user userData now1 u)\<lparr>user.updatedAt := now2\<rparr>"
  by (simp add: overwrite_user_def or_default_twice)

lemma overwrite_new_user:
  "overwrite_user userData now2 (new_user gen userData)
     = (new_user gen userData)\<lparr>user.updatedAt := now2\<rparr>"
  by (simp add: overwrite_user_def new_user_def or_default_twice)

lemma upsertUser_fst:
  "fst (upsertUser gen now userData d) =
     first_row (filter (\<lambda>u. user.id u = upsert_user.id userData)
                  (users (snd (upsertUser gen now userData d))))"
  by (simp add: upsertUser_def Let_def)

lemma upsertUser_others:
  "snd (upsertUser gen now userData d) = d\<lparr>users := users (snd (upsertUser gen now userData d))\<rparr>"
  by (simp add: upsertUser_def Let_def)

lemma upsertUser_users:
  "users (snd (upsertUser gen now userData d)) =
     (if upsert_user.id userData \<in> set (map user.id (users d))
      then map (\<lambda>u. if user.id u = upsert_user.id userData
                     then overwrite_user userData now u else u) (users d)
      else users d @ [new_user gen userData])"
proof -
  have unfolded: "users (snd (upsertUser gen now userData d)) =
    (case filter (\<lambda>u. user.id u = upsert_user.id userData) (users d) of
       [] \<Rightarrow> users d @ [new_user gen userData]
     | _ # _ \<Rightarrow> map (\<lambda>u. if user.id u = upsert_user.id userData
                          then overwrite_user userData now u else u) (users d))"
    by (simp add: upsertUser_def Let_def)
  show ?thesis
  proof (cases "filter (\<lambda>u. user.id u = upsert_user.id userData) (users d)")
    case Nil
    then have "upsert_user.id userData \<notin> set (map user.id (users d))"
      by (auto simp: filter_empty_conv)
    then show ?thesis
      unfolding unfolded Nil by simp
  next
    case (Cons a list)
    then have "a \<in> set (filter (\<lambda>u. user.id u = upsert_user.id userData) (users d))" by simp
    then have "upsert_user.id userData \<in> set (map user.id (users d))" by (force simp: image_iff)
    then show ?thesis
      unfolding unfolded Cons by simp
  qed
qed

lemma overwrite_keeps_ids:
  "map user.id (map (\<lambda>u. if user.id u = upsert_user.id userData
                             then overwrite_user userData now u else u) rows) = map user.id rows"
  by (induction rows) (simp_all add: overwrite_user_id)

lemma upsertUser_present:
  "upsert_user.id userData \<in> set (map user.id (users (snd (upsertUser gen now userData d))))"
proof (cases "upsert_user.id userData \<in> set (map user.id (users d))")
  case True
  then show ?thesis
    by (simp only: upsertUser_users if_True overwrite_keeps_ids)
next
  case False
  then show ?thesis by (simp add: upsertUser_users new_user_id)
qed

lemma upsertUser_second_users:
  "users (snd (upsertUser gen2 now2 userData (snd (upsertUser gen1 now1 userData d)))) =
     map (\<lambda>u. if user.id u = upsert_user.id userData then u\<lparr>user.updatedAt := now2\<rparr> else u)
       (users (snd (upsertUser gen1 now1 userData d)))"
proof (cases "upsert_user.id userData \<in> set (map user.id (users d))")
  case True
  have "users (snd (upsertUser gen2 now2 userData (snd (upsertUser gen1 now1 userData d)))) =
     map (\<lambda>u. if user.id u = upsert_user.id userData
               then overwrite_user userData now2 u else u)
       (users (snd (upsertUser gen1 now1 userData d)))"
    using upsertUser_present [of userData gen1 now1 d]
    by (subst upsertUser_users) simp
  also have "\<dots> = map (\<lambda>u. if user.id u = upsert_user.id userData then u\<lparr>user.updatedAt := now2\<rparr> else u)
       (users (snd (upsertUser gen1 now1 userData d)))"
    using True by (simp add: upsertUser_users overwrite_user_twice overwrite_user_id)
  finally show ?thesis .
next
  case False
  have "users (snd (upsertUser gen2 now2 userData (snd (upsertUser gen1 now1 userData d)))) =
     map (\<lambda>u. if user.id u = upsert_user.id userData
               then overwrite_user userData now2 u else u)
       (users (snd (upsertUser gen1 now1 userData d)))"
    using upsertUser_present [of userData gen1 now1 d]
    by (subst upsertUser_users) simp
  also have "\<dots> = map (\<lambda>u. if user.id u = upsert_user.id userData then u\<lparr>user.updatedAt := now2\<rparr> else u)
       (users (snd (upsertUser gen1 now1 userData d)))"
  proof -
    from False have "\<forall>u \<in> set (users d). user.id u \<noteq> upsert_user.id userData" by force
    with False show ?thesis by (simp add: upsertUser_users overwrite_new_user new_user_id)
  qed
  finally show ?thesis .
qed



text \<open>
  C6. \<open>upsertUser\<close> is idempotent up to the update time stamp. After a first call with
  some data (whatever the database held before, and whatever defaults and clock values
  the two calls see), a second call with the same data returns the row that the first
  call returned, with only \<open>updatedAt\<close> set anew; the users table is the one the first call
  left, with only \<open>updatedAt\<close> of the rows with that id set anew; and no other table changes.
\<close>

theorem upsertUser_idempotent:
  "fst (upsertUser gen1 now1 userData d) \<noteq> None
   \<and> fst (upsertUser gen2 now2 userData (snd (upsertUser gen1 now1 userData d)))
       = map_option (\<lambda>u. u\<lparr>user.updatedAt := now2\<rparr>) (fst (upsertUser gen1 now1 userData d))
   \<and> users (snd (upsertUser gen2 now2 userData (snd (upsertUser gen1 now1 userData d))))
       = map (\<lambda>u. if user.id u = upsert_user.id userData then u\<lparr>user.updatedAt := now2\<rparr> else u)
           (users (snd (upsertUser gen1 now1 userData d)))
   \<and> snd (upsertUser gen2 now2 userData (snd (upsertUser gen1 now1 userData d)))
       = (snd (upsertUser gen1 now1 userData d))
           \<lparr>users := users (snd (upsertUser gen2 now2 userData
                                   (snd (upsertUser gen1 now1 userData d))))\<rparr>"
proof -
  let ?d1 = "snd (upsertUser gen1 now1 userData d)"
  let ?touch = "\<lambda>u. if user.id u = upsert_user.id userData then u\<lparr>user.updatedAt := now2\<rparr> else u"
  have present: "fst (upsertUser gen1 now1 userData d) \<noteq> None"
  proof -
    from upsertUser_present [of userData gen1 now1 d]
    have "filter (\<lambda>u. user.id u = upsert_user.id userData) (users ?d1) \<noteq> []"
      by (simp add: filter_empty_conv image_iff) metis
    then show ?thesis
      by (subst upsertUser_fst) (simp add: first_row_def split: list.splits)
  qed
  have "fst (upsertUser gen2 now2 userData ?d1)
        = first_row (filter (\<lambda>u. user.id u = upsert_user.id userData) (map ?touch (users ?d1)))"
    by (subst upsertUser_fst) (simp only: upsertUser_second_users)
  also have "\<dots> = map_option ?touch (fst (upsertUser gen1 now1 userData d))"
    by (subst upsertUser_fst [of gen1]) (rule first_row_filter_map, simp)
  also have "\<dots> = map_option (\<lambda>u. u\<lparr>user.updatedAt := now2\<rparr>) (fst (upsertUser gen1 now1 userData d))"
  proof (cases "fst (upsertUser gen1 now1 userData d)")
    case None
    then show ?thesis by simp
  next
    case (Some u)
    then have "user.id u = upsert_user.id userData"
      using first_row_filter_SomeD [of "\<lambda>u. user.id u = upsert_user.id userData" "users ?d1" u]
      by (simp add: upsertUser_fst [symmetric])
    with Some show ?thesis by simp
  qed
  finally have second: "fst (upsertUser gen2 now2 userData ?d1)
        = map_option (\<lambda>u. u\<lparr>user.updatedAt := now2\<rparr>) (fst (upsertUser gen1 now1 userData d))" .
  show ?thesis
    by (intro conjI present second upsertUser_second_users upsertUser_others)
qed

section \<open>Facts about the storage calls of the handlers\<close>

lemma rejects_fault: "fault e = Some (call', err) \<Longrightarrow> rejects e call \<longleftrightarrow> call' = call"
  by (simp add: rejects_def)

lemma createAppointment_tables:
  "users (snd (createAppointment gen a d)) = users d"
  "coinTransactions (snd (createAppointment gen a d)) = coinTransactions d"
  "orders (snd (createAppointment gen a d)) = orders d"
  "products (snd (createAppointment gen a d)) = products d"
  "messages (snd (createAppointment gen a d)) = messages d"
  "appointments (snd (createAppointment gen a d))
     = appointments d @ [fst (createAppointment gen a d)]"
  by (simp_all add: createAppointment_def Let_def)

lemma createOrder_tables:
  "users (snd (createOrder gen r d)) = users d"
  "coinTransactions (snd (createOrder gen r d)) = coinTransactions d"
  "appointments (snd (createOrder gen r d)) = appointments d"
  "products (snd (createOrder gen r d)) = products d"
  "messages (snd (createOrder gen r d)) = messages d"
  "orders (snd (createOrder gen r d)) = orders d @ [fst (createOrder gen r d)]"
  by (simp_all add: createOrder_def Let_def)

lemma addCoinTransaction_tables:
  "users (snd (addCoinTransaction gen t d)) = users d"
  "appointments (snd (addCoinTransaction gen t d)) = appointments d"
  "orders (snd (addCoinTransaction gen t d)) = orders d"
  "products (snd (addCoinTransaction gen t d)) = products d"
  "messages (snd (addCoinTransaction gen t d)) = messages d"
  "coinTransactions (snd (addCoinTransaction gen t d))
     = coinTransactions d @ [fst (addCoinTransaction gen t d)]"
  by (simp_all add: addCoinTransaction_def Let_def)

lemma addCoinTransaction_row:
  "coin_transaction.userId (fst (addCoinTransaction gen t d)) = insert_coin_transaction.userId t"
  "coin_transaction.amount (fst (addCoinTransaction gen t d)) = insert_coin_transaction.amount t"
  by (simp_all add: addCoinTransaction_def Let_def)

lemma updateUserCoins_tables:
  "coinTransactions (snd (updateUserCoins now uid delta d)) = coinTransactions d"
  "appointments (snd (updateUserCoins now uid delta d)) = appointments d"
  "orders (snd (updateUserCoins now uid delta d)) = orders d"
  "products (snd (updateUserCoins now uid delta d)) = products d"
  "messages (snd (updateUserCoins now uid delta d)) = messages d"
  "users (snd (updateUserCoins now uid delta d))
     = map (\<lambda>u. if user.id u = uid
                  then u\<lparr>user.coinBalance := user.coinBalance u + delta, user.updatedAt := now\<rparr>
                  else u) (users d)"
  by (simp_all add: updateUserCoins_def Let_def)

lemma coin_sum_cong: "coinTransactions d' = coinTransactions d \<Longrightarrow> coin_sum uid d' = coin_sum uid d"
  by (simp add: coin_sum_def)

lemma coin_sum_append:
  "coinTransactions d' = coinTransactions d @ [t] \<Longrightarrow>
   coin_sum uid d' =
     coin_sum uid d + (if coin_transaction.userId t = uid then coin_transaction.amount t else 0)"
  by (simp add: coin_sum_def)

lemma user_ledger_cong:
  "users d' = users d \<Longrightarrow> coinTransactions d' = coinTransactions d \<Longrightarrow>
   user_ledger_matches U d' = user_ledger_matches U d"
  by (simp add: user_ledger_matches_def coin_sum_def)

lemma user_ledger_paired_writes:
  assumes "user_ledger_matches U d"
    and "users d' = map (\<lambda>u. if user.id u = uid
                               then u\<lparr>user.coinBalance := user.coinBalance u + delta,
                                      user.updatedAt := now\<rparr>
                               else u) (users d)"
    and "coinTransactions d' = coinTransactions d @ [t]"
    and "coin_transaction.userId t = uid"
    and "coin_transaction.amount t = delta"
  shows "user_ledger_matches U d'"
proof -
  let ?bump = "\<lambda>u. if user.id u = uid
                    then u\<lparr>user.coinBalance := user.coinBalance u + delta, user.updatedAt := now\<rparr>
                    else u"
  have sum: "coin_sum U d' = coin_sum U d + (if U = uid then delta else 0)"
    using coin_sum_append [OF assms(3), of U] assms(4,5) by auto
  have "coin_sum U d' = user.coinBalance u" if "u \<in> set (users d')" and "user.id u = U" for u
  proof -
    from that(1) obtain x where x: "x \<in> set (users d)" "u = ?bump x"
      unfolding assms(2) by auto
    have "user.id (?bump x) = user.id x" by simp
    with that(2) x(2) have xU: "user.id x = U" by simp
    with assms(1) x(1) have "coin_sum U d = user.coinBalance x"
      by (simp add: user_ledger_matches_def list_all_iff)
    with xU show ?thesis
      unfolding x(2) by (simp add: sum)
  qed
  then show ?thesis by (simp add: user_ledger_matches_def list_all_iff)
qed

lemma other_rows_kept:
  "U \<noteq> uid \<Longrightarrow>
   filter (\<lambda>u. user.id u = U)
     (map (\<lambda>u. if user.id u = uid
                then u\<lparr>user.coinBalance := user.coinBalance u + delta, user.updatedAt := now\<rparr>
                else u) rows)
     = filter (\<lambda>u. user.id u = U) rows"
  by (induction rows) auto

lemma user_ledger_other_update:
  assumes "U \<noteq> uid"
    and "users d' = map (\<lambda>u. if user.id u = uid
                               then u\<lparr>user.coinBalance := user.coinBalance u + delta,
                                      user.updatedAt := now\<rparr>
                               else u) (users d)"
    and "coinTransactions d' = coinTransactions d"
  shows "user_ledger_matches U d' = user_ledger_matches U d"
  using assms(1)
  by (simp add: user_ledger_matches_def assms(2) other_rows_kept coin_sum_cong [OF assms(3)])

lemma user_ledger_other_append:
  assumes "U \<noteq> uid"
    and "users d' = users d"
    and "coinTransactions d' = coinTransactions d @ [t]"
    and "coin_transaction.userId t = uid"
  shows "user_ledger_matches U d' = user_ledger_matches U d"
proof -
  have "coin_sum U d' = coin_sum U d"
    using coin_sum_append [OF assms(3), of U] assms(1,4) by auto
  then show ?thesis by (simp add: user_ledger_matches_def assms(2))
qed

lemma await_eq:
  "await e call result = (if rejects e call then Inl (fault_text e) else Inr result)"
  by (auto simp: await_def rejects_def fault_text_def split: option.splits)

lemma earned_entry_fields:
  "insert_coin_transaction.userId (earned_entry uid appt) = uid"
  "insert_coin_transaction.amount (earned_entry uid appt) = appointment.coinsEarned appt"
  by (simp_all add: earned_entry_def)

lemma redeemed_entry_fields:
  "insert_coin_transaction.userId (redeemed_entry uid data) = uid"
  "insert_coin_transaction.amount (redeemed_entry uid data) = - insert_order.coinsUsed data"
  by (simp_all add: redeemed_entry_def)

text \<open>The database that \<^verbatim>\<open>POST /api/appointments\<close> leaves, by the call that is rejected.\<close>

lemma post_appointments_db:
  assumes "parse req_body uid = Inr data"
  shows "snd (post_appointments parse e uid req_body d) =
     (let created = createAppointment (gen_appointment e) data d;
          d2 = snd (addCoinTransaction (gen_transaction e) (earned_entry uid (fst created))
                      (snd created))
      in if rejects e CreateAppointment then d
         else if rejects e AddCoinTransaction then snd created
         else if rejects e UpdateUserCoins then d2
         else snd (updateUserCoins (clock e) uid (appointment.coinsEarned (fst created)) d2))"
  by (simp add: post_appointments_def assms await_eq case_prod_beta Let_def)

lemma post_appointments_answer:
  assumes "parse req_body uid = Inr data"
  shows "fst (post_appointments parse e uid req_body d) =
     (if rejects e CreateAppointment \<or> rejects e AddCoinTransaction \<or> rejects e UpdateUserCoins
      then caught 400 ''Failed to create appointment'' (fault_text e)
      else Json (fst (createAppointment (gen_appointment e) data d)))"
  by (simp add: post_appointments_def assms await_eq case_prod_beta Let_def)

text \<open>The coin part of \<^verbatim>\<open>POST /api/orders\<close>, by the funds and the call that is rejected.\<close>

lemma deduct_coins_eq:
  "deduct_coins e uid data d =
     (let d1 = snd (updateUserCoins (clock e) uid (- insert_order.coinsUsed data) d) in
      if \<not> 0 < insert_order.coinsUsed data then Inr d
      else if rejects e GetUser then Inl (caught 400 ''Failed to create order'' (fault_text e), d)
      else if \<not> enough_coins uid data d then Inl (Status 400 Not_enough_coins, d)
      else if rejects e UpdateUserCoins
        then Inl (caught 400 ''Failed to create order'' (fault_text e), d)
      else if rejects e AddCoinTransaction
        then Inl (caught 400 ''Failed to create order'' (fault_text e), d1)
      else Inr (snd (addCoinTransaction (gen_transaction e) (redeemed_entry uid data) d1)))"
  by (cases "getUser uid d")
    (simp_all add: deduct_coins_def enough_coins_def await_eq case_prod_beta Let_def not_le)

lemma post_orders_eq:
  assumes "parse req_body uid = Inr data"
  shows "post_orders parse e uid req_body d =
     (case deduct_coins e uid data d of
        Inl answer \<Rightarrow> answer
      | Inr d2 \<Rightarrow>
          if rejects e CreateOrder then (caught 400 ''Failed to create order'' (fault_text e), d2)
          else (Json (fst (createOrder (gen_order e) data d2)),
                snd (createOrder (gen_order e) data d2)))"
  by (simp add: post_orders_def assms await_eq case_prod_beta split: sum.splits)

section \<open>The ledger invariant\<close>

lemma post_appointments_user_ledger:
  assumes "user_ledger_matches U d" and "uid = U \<longrightarrow> \<not> rejects e UpdateUserCoins"
  shows "user_ledger_matches U (snd (post_appointments parse e uid req_body d))"
proof (cases "parse req_body uid")
  case (Inl err)
  with assms(1) show ?thesis by (simp add: post_appointments_def)
next
  case (Inr data)
  let ?created = "createAppointment (gen_appointment e) data d"
  let ?entry = "addCoinTransaction (gen_transaction e) (earned_entry uid (fst ?created)) (snd ?created)"
  let ?d3 = "snd (updateUserCoins (clock e) uid (appointment.coinsEarned (fst ?created)) (snd ?entry))"
  have "user_ledger_matches U (snd ?created) = user_ledger_matches U d"
    by (rule user_ledger_cong) (simp_all add: createAppointment_tables)
  with assms(1) have 1: "user_ledger_matches U (snd ?created)" by simp
  have 2: "user_ledger_matches U (snd ?entry)" if "U \<noteq> uid"
  proof -
    have "user_ledger_matches U (snd ?entry) = user_ledger_matches U (snd ?created)"
      by (rule user_ledger_other_append [OF that, where t = "fst ?entry"])
        (simp_all add: addCoinTransaction_tables addCoinTransaction_row earned_entry_fields)
    with 1 show ?thesis by simp
  qed
  have 3: "user_ledger_matches U ?d3"
    by (rule user_ledger_paired_writes [OF assms(1), where t = "fst ?entry" and uid = uid
          and now = "clock e" and delta = "appointment.coinsEarned (fst ?created)"])
      (simp_all add: updateUserCoins_tables addCoinTransaction_tables createAppointment_tables
        addCoinTransaction_row earned_entry_fields)
  show ?thesis
  proof (cases "rejects e UpdateUserCoins")
    case True
    with assms(2) have "U \<noteq> uid" by auto
    with assms(1) 1 2 True show ?thesis
      by (simp add: post_appointments_db [where parse = parse, OF Inr] Let_def)
  next
    case False
    with assms(1) 1 3 show ?thesis
      by (simp add: post_appointments_db [where parse = parse, OF Inr] Let_def)
  qed
qed

lemma post_orders_user_ledger:
  assumes "user_ledger_matches U d" and "uid = U \<longrightarrow> \<not> rejects e AddCoinTransaction"
  shows "user_ledger_matches U (snd (post_orders parse e uid req_body d))"
proof (cases "parse req_body uid")
  case (Inl err)
  with assms(1) show ?thesis by (simp add: post_orders_def)
next
  case (Inr data)
  let ?d1 = "snd (updateUserCoins (clock e) uid (- insert_order.coinsUsed data) d)"
  let ?entry = "addCoinTransaction (gen_transaction e) (redeemed_entry uid data) ?d1"
  have 1: "user_ledger_matches U ?d1" if "U \<noteq> uid"
  proof -
    have "user_ledger_matches U ?d1 = user_ledger_matches U d"
      by (rule user_ledger_other_update [OF that, where now = "clock e"
            and delta = "- insert_order.coinsUsed data"])
        (simp_all add: updateUserCoins_tables)
    with assms(1) show ?thesis by simp
  qed
  have 2: "user_ledger_matches U (snd ?entry)"
    by (rule user_ledger_paired_writes [OF assms(1), where t = "fst ?entry" and uid = uid
          and now = "clock e" and delta = "- insert_order.coinsUsed data"])
      (simp_all add: updateUserCoins_tables addCoinTransaction_tables
        addCoinTransaction_row redeemed_entry_fields)
  have after: "user_ledger_matches U (snd (createOrder g data x)) = user_ledger_matches U x"
    for x g
    by (rule user_ledger_cong) (simp_all add: createOrder_tables)
  show ?thesis
  proof (cases "rejects e AddCoinTransaction")
    case True
    with assms(2) have "U \<noteq> uid" by auto
    with assms(1) 1 2 True show ?thesis
      by (simp add: post_orders_eq [where parse = parse, OF Inr] deduct_coins_eq Let_def after)
  next
    case False
    with assms(1) 2 show ?thesis
      by (simp add: post_orders_eq [where parse = parse, OF Inr] deduct_coins_eq Let_def after)
  qed
qed

lemma serve_user_ledger:
  assumes "user_ledger_matches U d"
    and "request_user r = U \<longrightarrow> \<not> fails_between_paired_writes r"
  shows "user_ledger_matches U (serve parse_appointment parse_order r d)"
  using assms by (cases r) (simp_all add: post_appointments_user_ledger post_orders_user_ledger)

text \<open>
  C1 (as amended). Take any user \<open>U\<close> whose balance equals the sum of the amounts of the
  coin transactions of \<open>U\<close>; nothing is asked of the other users. After every sequence
  of coin-affecting requests (bookings that award coins, orders that redeem coins), by
  any users, with any bodies, any validation schemas and any rejected storage calls,
  except that no request of \<open>U\<close> has the second of its two paired coin writes rejected,
  the balance of \<open>U\<close> still equals the sum of the ledger of \<open>U\<close>.
\<close>

theorem user_ledger_preserved:
  assumes "user_ledger_matches U d"
    and "\<forall>r \<in> set requests. request_user r = U \<longrightarrow> \<not> fails_between_paired_writes r"
  shows "user_ledger_matches U (serve_all parse_appointment parse_order requests d)"
  using assms
proof (induction requests arbitrary: d)
  case Nil
  then show ?case by simp
next
  case (Cons r requests)
  then have "user_ledger_matches U (serve parse_appointment parse_order r d)"
    by (simp add: serve_user_ledger)
  with Cons show ?case by simp
qed

lemmas example_data =
  shop_db_def two_user_db_def bob_def alice_def soap_def haircut_def signup_bonus_def
  example_env_def later_env_def order_body_def booking_body_def
  insertOrderSchema_parse_def insertAppointmentSchema_parse_def

lemmas handler_steps =
  post_appointments_def post_orders_def deduct_coins_def await_def caught_def
  createAppointment_def createOrder_def addCoinTransaction_def updateUserCoins_def getUser_def
  earned_entry_def redeemed_entry_def first_row_def or_default_def Let_def

text \<open>
  C1 as stated fails. The database holds one user with balance 100 and a ledger that
  sums to 100. A booking worth 20 coins is posted; the appointment insert and the
  ledger append succeed, the balance update is rejected by the database. The route
  answers 400 and nothing is undone: the ledger sums to 120, the balance is still 100.
\<close>

theorem ledger_broken_by_rejected_balance_update_counterexample:
  "user_ledger_matches ''alice'' shop_db
   \<and> \<not> user_ledger_matches ''alice''
         (serve_all insertAppointmentSchema_parse insertOrderSchema_parse
            [Post_appointment (example_env (Some (UpdateUserCoins, ''connection lost'')))
               ''alice'' (booking_body 20)] shop_db)
   \<and> coin_sum ''alice''
         (serve_all insertAppointmentSchema_parse insertOrderSchema_parse
            [Post_appointment (example_env (Some (UpdateUserCoins, ''connection lost'')))
               ''alice'' (booking_body 20)] shop_db) = 120
   \<and> map user.coinBalance (users
         (serve_all insertAppointmentSchema_parse insertOrderSchema_parse
            [Post_appointment (example_env (Some (UpdateUserCoins, ''connection lost'')))
               ''alice'' (booking_body 20)] shop_db)) = [100]"
  by (simp add: user_ledger_matches_def coin_sum_def example_data handler_steps)

text \<open>
  The theorem at work: alice's ledger matches, bob's does not. Alice books (20 coins),
  bob books and the database rejects his balance update, alice orders with 50 coins.
  Alice's balance and ledger sum are both 70 afterwards.
\<close>

theorem user_ledger_preserved_witness:
  "user_ledger_matches ''alice'' two_user_db
   \<and> \<not> user_ledger_matches ''bob'' two_user_db
   \<and> \<not> fails_between_paired_writes
         (Post_appointment (example_env None) ''alice'' (booking_body 20)
            :: (insert_appointment, insert_order) request)
   \<and> fails_between_paired_writes
         (Post_appointment (later_env ''3'' 3000 (Some (UpdateUserCoins, ''connection lost'')))
            ''bob'' (booking_body 20) :: (insert_appointment, insert_order) request)
   \<and> \<not> fails_between_paired_writes
         (Post_order (later_env ''4'' 4000 None) ''alice'' (order_body 50)
            :: (insert_appointment, insert_order) request)
   \<and> user_ledger_matches ''alice''
         (serve_all insertAppointmentSchema_parse insertOrderSchema_parse
            [Post_appointment (example_env None) ''alice'' (booking_body 20),
             Post_appointment (later_env ''3'' 3000 (Some (UpdateUserCoins, ''connection lost'')))
               ''bob'' (booking_body 20),
             Post_order (later_env ''4'' 4000 None) ''alice'' (order_body 50)] two_user_db)
   \<and> map user.coinBalance (users
         (serve_all insertAppointmentSchema_parse insertOrderSchema_parse
            [Post_appointment (example_env None) ''alice'' (booking_body 20),
             Post_appointment (later_env ''3'' 3000 (Some (UpdateUserCoins, ''connection lost'')))
               ''bob'' (booking_body 20),
             Post_order (later_env ''4'' 4000 None) ''alice'' (order_body 50)] two_user_db))
       = [70, 5]
   \<and> coin_sum ''alice''
         (serve_all insertAppointmentSchema_parse insertOrderSchema_parse
            [Post_appointment (example_env None) ''alice'' (booking_body 20),
             Post_appointment (later_env ''3'' 3000 (Some (UpdateUserCoins, ''connection lost'')))
               ''bob'' (booking_body 20),
             Post_order (later_env ''4'' 4000 None) ''alice'' (order_body 50)] two_user_db)
       = 70"
proof -
  let ?r1 = "Post_appointment (example_env None) ''alice'' (booking_body 20)
               :: (insert_appointment, insert_order) request"
  let ?r2 = "Post_appointment (later_env ''3'' 3000 (Some (UpdateUserCoins, ''connection lost'')))
               ''bob'' (booking_body 20) :: (insert_appointment, insert_order) request"
  let ?r3 = "Post_order (later_env ''4'' 4000 None) ''alice'' (order_body 50)
               :: (insert_appointment, insert_order) request"
  have start: "user_ledger_matches ''alice'' two_user_db"
    by (simp add: user_ledger_matches_def coin_sum_def example_data)
  have off: "\<not> user_ledger_matches ''bob'' two_user_db"
    by (simp add: user_ledger_matches_def coin_sum_def example_data)
  have a: "\<not> fails_between_paired_writes ?r1"
    by (simp add: rejects_def example_env_def)
  have b: "fails_between_paired_writes ?r2"
    by (simp add: rejects_def example_env_def later_env_def)
  have c: "\<not> fails_between_paired_writes ?r3"
    by (simp add: rejects_def example_env_def later_env_def)
  have all: "\<forall>r \<in> set [?r1, ?r2, ?r3].
           request_user r = ''alice'' \<longrightarrow> \<not> fails_between_paired_writes r"
    using a c by simp
  have balance: "map user.coinBalance (users
         (serve_all insertAppointmentSchema_parse insertOrderSchema_parse [?r1, ?r2, ?r3]
            two_user_db)) = [70, 5]"
    by (simp add: example_data handler_steps)
  have total: "coin_sum ''alice''
         (serve_all insertAppointmentSchema_parse insertOrderSchema_parse [?r1, ?r2, ?r3]
            two_user_db) = 70"
    by (simp add: coin_sum_def example_data handler_steps)
  from user_ledger_preserved [OF start all] start off a b c balance total
  show ?thesis by blast
qed

section \<open>Validation comes before every write\<close>

text \<open>
  C5. In each of the four routes that take a body, the validation schema parses the
  body before the first storage call. When it throws, the route answers 400 with the
  error's message and the database is exactly the one before the request: balance,
  ledger and every table are unchanged. This holds for whatever the schema rejects;
  with a schema that rejects a negative coin amount, an order with a negative coin
  amount writes nothing.
\<close>

theorem validation_failure_writes_nothing:
  "(parse_appointment body1 uid = Inl err \<longrightarrow>
      post_appointments parse_appointment e uid body1 d
        = (caught 400 ''Failed to create appointment'' err, d))
   \<and> (parse_product body2 = Inl err \<longrightarrow>
      post_admin_products parse_product e body2 d
        = (caught 400 ''Failed to create product'' err, d))
   \<and> (parse_order body3 uid = Inl err \<longrightarrow>
      post_orders parse_order e uid body3 d = (caught 400 ''Failed to create order'' err, d))
   \<and> (parse_message body4 uid ''customer'' = Inl err \<longrightarrow>
      post_messages parse_message e uid body4 d = (caught 400 ''Failed to send message'' err, d))"
  by (simp add: post_appointments_def post_admin_products_def post_orders_def post_messages_def)

theorem validation_failure_writes_nothing_witness:
  "insertOrderSchema_parse (order_body (- 5)) ''alice''
     = Inl ''Number must be greater than or equal to 0''
   \<and> post_orders insertOrderSchema_parse (example_env None) ''alice'' (order_body (- 5)) shop_db
     = (Status 400 (Message ''Number must be greater than or equal to 0''), shop_db)"
proof -
  have rejected: "insertOrderSchema_parse (order_body (- 5)) ''alice''
     = Inl ''Number must be greater than or equal to 0''"
    by (simp add: insertOrderSchema_parse_def order_body_def)
  from validation_failure_writes_nothing
    [where parse_order = insertOrderSchema_parse and ?body3.0 = "order_body (- 5)"
       and uid = "''alice''" and err = "''Number must be greater than or equal to 0''"
       and e = "example_env None" and d = shop_db,
     THEN conjunct2, THEN conjunct2, THEN conjunct1, THEN mp, OF rejected]
    rejected
  show ?thesis by (simp add: caught_def)
qed

section \<open>A rejected storage call: what stays written\<close>

lemma fault_text_fault: "fault e = Some (call, err) \<Longrightarrow> fault_text e = err"
  by (simp add: fault_text_def)

lemma balances_after_updateUserCoins:
  "map user.coinBalance (users (snd (updateUserCoins now uid delta d)))
     = map (\<lambda>u. if user.id u = uid then user.coinBalance u + delta else user.coinBalance u)
         (users d)"
  by (simp add: updateUserCoins_tables comp_def if_distrib cong: if_cong)

lemma rejected_booking_step:
  assumes "parse_appointment body1 uid = Inr booking"
  shows
    "(fault e = Some (CreateAppointment, err) \<longrightarrow>
        post_appointments parse_appointment e uid body1 d
          = (caught 400 ''Failed to create appointment'' err, d))
     \<and> (fault e = Some (AddCoinTransaction, err) \<longrightarrow>
        post_appointments parse_appointment e uid body1 d
          = (caught 400 ''Failed to create appointment'' err,
             snd (createAppointment (gen_appointment e) booking d)))
     \<and> (fault e = Some (UpdateUserCoins, err) \<longrightarrow>
        fst (post_appointments parse_appointment e uid body1 d)
          = caught 400 ''Failed to create appointment'' err
        \<and> appointments (snd (post_appointments parse_appointment e uid body1 d))
          = appointments d @ [fst (createAppointment (gen_appointment e) booking d)]
        \<and> coinTransactions (snd (post_appointments parse_appointment e uid body1 d))
          = coinTransactions d @
              [fst (addCoinTransaction (gen_transaction e)
                      (earned_entry uid (fst (createAppointment (gen_appointment e) booking d)))
                      (snd (createAppointment (gen_appointment e) booking d)))]
        \<and> users (snd (post_appointments parse_appointment e uid body1 d)) = users d)"
proof -
  note booking = post_appointments_db [where parse = parse_appointment, OF assms]
    post_appointments_answer [where parse = parse_appointment, OF assms]
  have 1: "fault e = Some (CreateAppointment, err) \<Longrightarrow>
        post_appointments parse_appointment e uid body1 d
          = (caught 400 ''Failed to create appointment'' err, d)"
    by (simp add: prod_eq_iff booking rejects_fault fault_text_fault Let_def)
  have 2: "fault e = Some (AddCoinTransaction, err) \<Longrightarrow>
        post_appointments parse_appointment e uid body1 d
          = (caught 400 ''Failed to create appointment'' err,
             snd (createAppointment (gen_appointment e) booking d))"
    by (simp add: prod_eq_iff booking rejects_fault fault_text_fault Let_def)
  have 3: "fault e = Some (UpdateUserCoins, err) \<Longrightarrow>
        fst (post_appointments parse_appointment e uid body1 d)
          = caught 400 ''Failed to create appointment'' err
        \<and> snd (post_appointments parse_appointment e uid body1 d)
          = snd (addCoinTransaction (gen_transaction e)
                      (earned_entry uid (fst (createAppointment (gen_appointment e) booking d)))
                      (snd (createAppointment (gen_appointment e) booking d)))"
    by (simp add: booking rejects_fault fault_text_fault Let_def)
  show ?thesis
  proof (intro conjI impI)
    show "post_appointments parse_appointment e uid body1 d
          = (caught 400 ''Failed to create appointment'' err, d)"
      if "fault e = Some (CreateAppointment, err)"
      using 1 that .
    show "post_appointments parse_appointment e uid body1 d
          = (caught 400 ''Failed to create appointment'' err,
             snd (createAppointment (gen_appointment e) booking d))"
      if "fault e = Some (AddCoinTransaction, err)"
      using 2 that .
  qed (simp_all add: 3 createAppointment_tables addCoinTransaction_tables)
qed

lemma rejected_order_step:
  assumes "parse_order body2 uid = Inr data"
    and "0 < insert_order.coinsUsed data"
    and "enough_coins uid data d"
  shows
    "(fault e = Some (GetUser, err) \<or> fault e = Some (UpdateUserCoins, err) \<longrightarrow>
        post_orders parse_order e uid body2 d = (caught 400 ''Failed to create order'' err, d))
     \<and> (fault e = Some (AddCoinTransaction, err) \<longrightarrow>
        post_orders parse_order e uid body2 d
          = (caught 400 ''Failed to create order'' err,
             snd (updateUserCoins (clock e) uid (- insert_order.coinsUsed data) d)))
     \<and> (fault e = Some (CreateOrder, err) \<longrightarrow>
        fst (post_orders parse_order e uid body2 d) = caught 400 ''Failed to create order'' err
        \<and> orders (snd (post_orders parse_order e uid body2 d)) = orders d
        \<and> map user.coinBalance (users (snd (post_orders parse_order e uid body2 d)))
          = map (\<lambda>u. if user.id u = uid then user.coinBalance u - insert_order.coinsUsed data
                       else user.coinBalance u) (users d)
        \<and> coinTransactions (snd (post_orders parse_order e uid body2 d))
          = coinTransactions d @
              [fst (addCoinTransaction (gen_transaction e) (redeemed_entry uid data)
                      (snd (updateUserCoins (clock e) uid (- insert_order.coinsUsed data) d)))])"
proof -
  note ordering = post_orders_eq [where parse = parse_order, OF assms(1)]
  have 4: "fault e = Some (GetUser, err) \<or> fault e = Some (UpdateUserCoins, err) \<Longrightarrow>
        post_orders parse_order e uid body2 d = (caught 400 ''Failed to create order'' err, d)"
    using assms(2,3)
    by (auto simp: ordering deduct_coins_eq rejects_fault fault_text_fault Let_def)
  have 5: "fault e = Some (AddCoinTransaction, err) \<Longrightarrow>
        post_orders parse_order e uid body2 d
          = (caught 400 ''Failed to create order'' err,
             snd (updateUserCoins (clock e) uid (- insert_order.coinsUsed data) d))"
    using assms(2,3)
    by (simp add: ordering deduct_coins_eq rejects_fault fault_text_fault Let_def)
  have 6: "fault e = Some (CreateOrder, err) \<Longrightarrow>
        post_orders parse_order e uid body2 d
          = (caught 400 ''Failed to create order'' err,
             snd (addCoinTransaction (gen_transaction e) (redeemed_entry uid data)
                      (snd (updateUserCoins (clock e) uid (- insert_order.coinsUsed data) d))))"
    using assms(2,3)
    by (simp add: ordering deduct_coins_eq rejects_fault fault_text_fault Let_def)
  show ?thesis
  proof (intro conjI impI)
    show "post_orders parse_order e uid body2 d = (caught 400 ''Failed to create order'' err, d)"
      if "fault e = Some (GetUser, err) \<or> fault e = Some (UpdateUserCoins, err)"
      using 4 that .
    show "post_orders parse_order e uid body2 d
          = (caught 400 ''Failed to create order'' err,
             snd (updateUserCoins (clock e) uid (- insert_order.coinsUsed data) d))"
      if "fault e = Some (AddCoinTransaction, err)"
      using 5 that .
  qed (simp_all add: 6 addCoinTransaction_tables updateUserCoins_tables(1-5)
        balances_after_updateUserCoins)
qed

text \<open>
  C2 (as amended). The two multi-step coin units are sequences of independent storage
  calls, each of which is all-or-nothing by itself; the units are not atomic. A request
  whose storage call is rejected is answered 400 with the error, and the database is the
  one that the calls before the rejected one produced: nothing is undone.

  Booking (insert the appointment, append the ledger entry, adjust the balance):
  rejected at the insert, nothing is written; rejected at the ledger append, the
  appointment stays, without coins; rejected at the balance adjustment, the appointment
  and the ledger entry stay and the balance is the old one.

  Order with coins, by a user with enough coins (read the user, adjust the balance,
  append the ledger entry, insert the order): rejected at the read or at the balance
  adjustment, nothing is written; rejected at the ledger append, the balance stays
  reduced with no ledger entry; rejected at the order insert, the redemption stays
  (balance reduced, ledger entry appended) and there is no order.
\<close>

theorem rejected_step_keeps_earlier_writes:
  "(parse_appointment body1 uid = Inr booking \<longrightarrow>
     (fault e = Some (CreateAppointment, err) \<longrightarrow>
        post_appointments parse_appointment e uid body1 d
          = (caught 400 ''Failed to create appointment'' err, d))
     \<and> (fault e = Some (AddCoinTransaction, err) \<longrightarrow>
        post_appointments parse_appointment e uid body1 d
          = (caught 400 ''Failed to create appointment'' err,
             snd (createAppointment (gen_appointment e) booking d)))
     \<and> (fault e = Some (UpdateUserCoins, err) \<longrightarrow>
        fst (post_appointments parse_appointment e uid body1 d)
          = caught 400 ''Failed to create appointment'' err
        \<and> appointments (snd (post_appointments parse_appointment e uid body1 d))
          = appointments d @ [fst (createAppointment (gen_appointment e) booking d)]
        \<and> coinTransactions (snd (post_appointments parse_appointment e uid body1 d))
          = coinTransactions d @
              [fst (addCoinTransaction (gen_transaction e)
                      (earned_entry uid (fst (createAppointment (gen_appointment e) booking d)))
                      (snd (createAppointment (gen_appointment e) booking d)))]
        \<and> users (snd (post_appointments parse_appointment e uid body1 d)) = users d))
   \<and> (parse_order body2 uid = Inr data \<and> 0 < insert_order.coinsUsed data
        \<and> enough_coins uid data d \<longrightarrow>
     (fault e = Some (GetUser, err) \<or> fault e = Some (UpdateUserCoins, err) \<longrightarrow>
        post_orders parse_order e uid body2 d = (caught 400 ''Failed to create order'' err, d))
     \<and> (fault e = Some (AddCoinTransaction, err) \<longrightarrow>
        post_orders parse_order e uid body2 d
          = (caught 400 ''Failed to create order'' err,
             snd (updateUserCoins (clock e) uid (- insert_order.coinsUsed data) d)))
     \<and> (fault e = Some (CreateOrder, err) \<longrightarrow>
        fst (post_orders parse_order e uid body2 d) = caught 400 ''Failed to create order'' err
        \<and> orders (snd (post_orders parse_order e uid body2 d)) = orders d
        \<and> map user.coinBalance (users (snd (post_orders parse_order e uid body2 d)))
          = map (\<lambda>u. if user.id u = uid then user.coinBalance u - insert_order.coinsUsed data
                       else user.coinBalance u) (users d)
        \<and> coinTransactions (snd (post_orders parse_order e uid body2 d))
          = coinTransactions d @
              [fst (addCoinTransaction (gen_transaction e) (redeemed_entry uid data)
                      (snd (updateUserCoins (clock e) uid (- insert_order.coinsUsed data) d)))]))"
proof (intro conjI)
  show "parse_appointment body1 uid = Inr booking \<longrightarrow>
     (fault e = Some (CreateAppointment, err) \<longrightarrow>
        post_appointments parse_appointment e uid body1 d
          = (caught 400 ''Failed to create appointment'' err, d))
     \<and> (fault e = Some (AddCoinTransaction, err) \<longrightarrow>
        post_appointments parse_appointment e uid body1 d
          = (caught 400 ''Failed to create appointment'' err,
             snd (createAppointment (gen_appointment e) booking d)))
     \<and> (fault e = Some (UpdateUserCoins, err) \<longrightarrow>
        fst (post_appointments parse_appointment e uid body1 d)
          = caught 400 ''Failed to create appointment'' err
        \<and> appointments (snd (post_appointments parse_appointment e uid body1 d))
          = appointments d @ [fst (createAppointment (gen_appointment e) booking d)]
        \<and> coinTransactions (snd (post_appointments parse_appointment e uid body1 d))
          = coinTransactions d @
              [fst (addCoinTransaction (gen_transaction e)
                      (earned_entry uid (fst (createAppointment (gen_appointment e) booking d)))
                      (snd (createAppointment (gen_appointment e) booking d)))]
        \<and> users (snd (post_appointments parse_appointment e uid body1 d)) = users d)"
    by (rule impI) (rule rejected_booking_step)
  show "parse_order body2 uid = Inr data \<and> 0 < insert_order.coinsUsed data
        \<and> enough_coins uid data d \<longrightarrow>
     (fault e = Some (GetUser, err) \<or> fault e = Some (UpdateUserCoins, err) \<longrightarrow>
        post_orders parse_order e uid body2 d = (caught 400 ''Failed to create order'' err, d))
     \<and> (fault e = Some (AddCoinTransaction, err) \<longrightarrow>
        post_orders parse_order e uid body2 d
          = (caught 400 ''Failed to create order'' err,
             snd (updateUserCoins (clock e) uid (- insert_order.coinsUsed data) d)))
     \<and> (fault e = Some (CreateOrder, err) \<longrightarrow>
        fst (post_orders parse_order e uid body2 d) = caught 400 ''Failed to create order'' err
        \<and> orders (snd (post_orders parse_order e uid body2 d)) = orders d
        \<and> map user.coinBalance (users (snd (post_orders parse_order e uid body2 d)))
          = map (\<lambda>u. if user.id u = uid then user.coinBalance u - insert_order.coinsUsed data
                       else user.coinBalance u) (users d)
        \<and> coinTransactions (snd (post_orders parse_order e uid body2 d))
          = coinTransactions d @
              [fst (addCoinTransaction (gen_transaction e) (redeemed_entry uid data)
                      (snd (updateUserCoins (clock e) uid (- insert_order.coinsUsed data) d)))])"
    by (intro impI, elim conjE) (rule rejected_order_step)
qed

text \<open>
  C2 as stated fails. A user with 100 coins orders with 50 coins; the balance update and
  the ledger append succeed, the order insert is rejected. The route answers 400, there
  is no order, and the redemption is not undone: the balance is 50 and the ledger holds
  the entry of -50.
\<close>

theorem order_failure_keeps_redemption_counterexample:
  "fst (post_orders insertOrderSchema_parse
          (example_env (Some (CreateOrder, ''connection lost''))) ''alice'' (order_body 50) shop_db)
     = Status 400 (Message ''connection lost'')
   \<and> orders (snd (post_orders insertOrderSchema_parse
          (example_env (Some (CreateOrder, ''connection lost''))) ''alice'' (order_body 50) shop_db))
     = []
   \<and> map user.coinBalance (users (snd (post_orders insertOrderSchema_parse
          (example_env (Some (CreateOrder, ''connection lost''))) ''alice'' (order_body 50) shop_db)))
     = [50]
   \<and> map coin_transaction.amount (coinTransactions (snd (post_orders insertOrderSchema_parse
          (example_env (Some (CreateOrder, ''connection lost''))) ''alice'' (order_body 50) shop_db)))
     = [100, - 50]
   \<and> map user.coinBalance (users shop_db) = [100]
   \<and> map coin_transaction.amount (coinTransactions shop_db) = [100]"
  by (simp add: example_data handler_steps)

theorem rejected_step_keeps_earlier_writes_witness:
  "insertAppointmentSchema_parse (booking_body 20) ''alice''
     = Inr ((booking_body 20)\<lparr>insert_appointment.userId := ''alice''\<rparr>)
   \<and> insertOrderSchema_parse (order_body 50) ''alice''
     = Inr ((order_body 50)\<lparr>insert_order.userId := ''alice''\<rparr>)
   \<and> 0 < insert_order.coinsUsed ((order_body 50)\<lparr>insert_order.userId := ''alice''\<rparr>)
   \<and> enough_coins ''alice'' ((order_body 50)\<lparr>insert_order.userId := ''alice''\<rparr>) shop_db
   \<and> fault (example_env (Some (CreateOrder, ''connection lost'')))
       = Some (CreateOrder, ''connection lost'')
   \<and> fault (example_env (Some (UpdateUserCoins, ''connection lost'')))
       = Some (UpdateUserCoins, ''connection lost'')
   \<and> fst (post_orders insertOrderSchema_parse
          (example_env (Some (CreateOrder, ''connection lost''))) ''alice'' (order_body 50) shop_db)
       = caught 400 ''Failed to create order'' ''connection lost''
   \<and> orders (snd (post_orders insertOrderSchema_parse
          (example_env (Some (CreateOrder, ''connection lost''))) ''alice'' (order_body 50) shop_db))
       = orders shop_db
   \<and> map user.coinBalance (users (snd (post_orders insertOrderSchema_parse
          (example_env (Some (CreateOrder, ''connection lost''))) ''alice'' (order_body 50) shop_db)))
       = [50]
   \<and> fst (post_appointments insertAppointmentSchema_parse
          (example_env (Some (UpdateUserCoins, ''connection lost''))) ''alice'' (booking_body 20)
          shop_db)
       = caught 400 ''Failed to create appointment'' ''connection lost''
   \<and> users (snd (post_appointments insertAppointmentSchema_parse
          (example_env (Some (UpdateUserCoins, ''connection lost''))) ''alice'' (booking_body 20)
          shop_db))
       = users shop_db
   \<and> post_orders insertOrderSchema_parse
          (example_env (Some (UpdateUserCoins, ''connection lost''))) ''alice'' (order_body 50) shop_db
       = (caught 400 ''Failed to create order'' ''connection lost'', shop_db)"
proof -
  have a: "insertAppointmentSchema_parse (booking_body 20) ''alice''
     = Inr ((booking_body 20)\<lparr>insert_appointment.userId := ''alice''\<rparr>)"
    by (simp add: example_data)
  have b: "insertOrderSchema_parse (order_body 50) ''alice''
     = Inr ((order_body 50)\<lparr>insert_order.userId := ''alice''\<rparr>)"
    by (simp add: example_data)
  have c: "0 < insert_order.coinsUsed ((order_body 50)\<lparr>insert_order.userId := ''alice''\<rparr>)"
    by (simp add: example_data)
  have d: "enough_coins ''alice'' ((order_body 50)\<lparr>insert_order.userId := ''alice''\<rparr>) shop_db"
    by (simp add: enough_coins_def getUser_def first_row_def example_data)
  have f: "fault (example_env (Some (CreateOrder, ''connection lost'')))
       = Some (CreateOrder, ''connection lost'')"
    by (simp add: example_env_def)
  have g: "fault (example_env (Some (UpdateUserCoins, ''connection lost'')))
       = Some (UpdateUserCoins, ''connection lost'')"
    by (simp add: example_env_def)
  have balances: "map user.coinBalance (users shop_db) = [100]" "map user.id (users shop_db) = [''alice'']"
    "users shop_db = [alice]" "user.id alice = ''alice''" "user.coinBalance alice = 100"
    "insert_order.coinsUsed ((order_body 50)\<lparr>insert_order.userId := ''alice''\<rparr>) = 50"
    by (simp_all add: example_data)
  from rejected_step_keeps_earlier_writes
    [where parse_appointment = insertAppointmentSchema_parse
       and parse_order = insertOrderSchema_parse
       and e = "example_env (Some (CreateOrder, ''connection lost''))"
       and err = "''connection lost''" and d = shop_db and uid = "''alice''"
       and ?body1.0 = "booking_body 20" and ?body2.0 = "order_body 50"
       and booking = "(booking_body 20)\<lparr>insert_appointment.userId := ''alice''\<rparr>"
       and data = "(order_body 50)\<lparr>insert_order.userId := ''alice''\<rparr>"]
    a b c d f
  have order_insert: "fst (post_orders insertOrderSchema_parse
          (example_env (Some (CreateOrder, ''connection lost''))) ''alice'' (order_body 50) shop_db)
       = caught 400 ''Failed to create order'' ''connection lost''
   \<and> orders (snd (post_orders insertOrderSchema_parse
          (example_env (Some (CreateOrder, ''connection lost''))) ''alice'' (order_body 50) shop_db))
       = orders shop_db
   \<and> map user.coinBalance (users (snd (post_orders insertOrderSchema_parse
          (example_env (Some (CreateOrder, ''connection lost''))) ''alice'' (order_body 50) shop_db)))
       = [50]"
    by (simp add: balances)
  from rejected_step_keeps_earlier_writes
    [where parse_appointment = insertAppointmentSchema_parse
       and parse_order = insertOrderSchema_parse
       and e = "example_env (Some (UpdateUserCoins, ''connection lost''))"
       and err = "''connection lost''" and d = shop_db and uid = "''alice''"
       and ?body1.0 = "booking_body 20" and ?body2.0 = "order_body 50"
       and booking = "(booking_body 20)\<lparr>insert_appointment.userId := ''alice''\<rparr>"
       and data = "(order_body 50)\<lparr>insert_order.userId := ''alice''\<rparr>"]
    a b c d g
  have balance_update: "fst (post_appointments insertAppointmentSchema_parse
          (example_env (Some (UpdateUserCoins, ''connection lost''))) ''alice'' (booking_body 20)
          shop_db)
       = caught 400 ''Failed to create appointment'' ''connection lost''
   \<and> users (snd (post_appointments insertAppointmentSchema_parse
          (example_env (Some (UpdateUserCoins, ''connection lost''))) ''alice'' (booking_body 20)
          shop_db))
       = users shop_db
   \<and> post_orders insertOrderSchema_parse
          (example_env (Some (UpdateUserCoins, ''connection lost''))) ''alice'' (order_body 50) shop_db
       = (caught 400 ''Failed to create order'' ''connection lost'', shop_db)"
    by simp
  from a b c d f g order_insert balance_update show ?thesis by simp
qed

section \<open>The boundary of redemption\<close>

lemma getUser_users_cong: "users d' = users d \<Longrightarrow> getUser uid d' = getUser uid d"
  by (simp add: getUser_def)

lemma getUser_after_updateUserCoins:
  "getUser uid (snd (updateUserCoins now uid delta d))
     = map_option (\<lambda>u. u\<lparr>user.coinBalance := user.coinBalance u + delta, user.updatedAt := now\<rparr>)
         (getUser uid d)"
proof -
  have "getUser uid (snd (updateUserCoins now uid delta d)) = fst (updateUserCoins now uid delta d)"
    by (simp add: getUser_def updateUserCoins_def Let_def)
  then show ?thesis by (simp add: updateUserCoins_fst)
qed

lemma createOrder_row:
  "order.coinsUsed (fst (createOrder gen r d)) = insert_order.coinsUsed r"
  by (simp add: createOrder_def Let_def)

text \<open>
  C3. Take a user with balance \<open>B\<close> and an order that passes validation. \<open>B\<close> is not
  negative, which is the data model's policy for balances (an order with no coins
  redeems nothing). With \<open>coinsUsed = B\<close>, when the database executes the storage calls
  of the request, the order is created, the user's balance is 0 afterwards, and the
  user's ledger sum has gone down by \<open>B\<close>. With \<open>coinsUsed = B + 1\<close> the request leaves
  the database exactly as it was (balance, ledger and all) and is answered 400: with the
  insufficient-coins message when the database executes the read of the user, and with
  the error of that read when the database rejects it.
\<close>

theorem redemption_boundary:
  assumes "parse_order req_body uid = Inr data"
    and "getUser uid d = Some u"
    and "0 \<le> user.coinBalance u"
  shows
    "(insert_order.coinsUsed data = user.coinBalance u
        \<and> \<not> rejects e GetUser \<and> \<not> rejects e UpdateUserCoins
        \<and> \<not> rejects e AddCoinTransaction \<and> \<not> rejects e CreateOrder \<longrightarrow>
        (\<exists>created. fst (post_orders parse_order e uid req_body d) = Json created
            \<and> order.coinsUsed created = user.coinBalance u
            \<and> orders (snd (post_orders parse_order e uid req_body d)) = orders d @ [created])
        \<and> map_option user.coinBalance (getUser uid (snd (post_orders parse_order e uid req_body d)))
            = Some 0
        \<and> coin_sum uid (snd (post_orders parse_order e uid req_body d))
            = coin_sum uid d - user.coinBalance u)
     \<and> (insert_order.coinsUsed data = user.coinBalance u + 1 \<longrightarrow>
        snd (post_orders parse_order e uid req_body d) = d
        \<and> fst (post_orders parse_order e uid req_body d)
            = (if rejects e GetUser then caught 400 ''Failed to create order'' (fault_text e)
               else Status 400 Not_enough_coins))"
proof (intro conjI impI)
  note ordering = post_orders_eq [where parse = parse_order, OF assms(1)]
  {
    assume over: "insert_order.coinsUsed data = user.coinBalance u + 1"
    with assms(2,3) have "\<not> enough_coins uid data d" "0 < insert_order.coinsUsed data"
      by (simp_all add: enough_coins_def)
    then show "snd (post_orders parse_order e uid req_body d) = d"
      by (simp add: ordering deduct_coins_eq Let_def)
    from \<open>\<not> enough_coins uid data d\<close> \<open>0 < insert_order.coinsUsed data\<close>
    show "fst (post_orders parse_order e uid req_body d)
            = (if rejects e GetUser then caught 400 ''Failed to create order'' (fault_text e)
               else Status 400 Not_enough_coins)"
      by (simp add: ordering deduct_coins_eq Let_def)
  }
  assume "insert_order.coinsUsed data = user.coinBalance u
        \<and> \<not> rejects e GetUser \<and> \<not> rejects e UpdateUserCoins
        \<and> \<not> rejects e AddCoinTransaction \<and> \<not> rejects e CreateOrder"
  then have exact: "insert_order.coinsUsed data = user.coinBalance u"
    and ok: "\<not> rejects e GetUser" "\<not> rejects e UpdateUserCoins"
      "\<not> rejects e AddCoinTransaction" "\<not> rejects e CreateOrder"
    by simp_all
  let ?d1 = "snd (updateUserCoins (clock e) uid (- insert_order.coinsUsed data) d)"
  let ?d2 = "snd (addCoinTransaction (gen_transaction e) (redeemed_entry uid data) ?d1)"
  let ?before = "if 0 < insert_order.coinsUsed data then ?d2 else d"
  have enough: "enough_coins uid data d"
    using assms(2) exact by (simp add: enough_coins_def)
  have run: "post_orders parse_order e uid req_body d
        = (Json (fst (createOrder (gen_order e) data ?before)),
           snd (createOrder (gen_order e) data ?before))"
    using enough ok by (simp add: ordering deduct_coins_eq Let_def)
  have orders_before: "orders ?before = orders d"
    by (simp add: addCoinTransaction_tables updateUserCoins_tables)
  show "\<exists>created. fst (post_orders parse_order e uid req_body d) = Json created
            \<and> order.coinsUsed created = user.coinBalance u
            \<and> orders (snd (post_orders parse_order e uid req_body d)) = orders d @ [created]"
  proof (intro exI conjI)
    show "fst (post_orders parse_order e uid req_body d)
          = Json (fst (createOrder (gen_order e) data ?before))"
      by (simp only: run fst_conv)
    show "order.coinsUsed (fst (createOrder (gen_order e) data ?before)) = user.coinBalance u"
      by (simp only: createOrder_row exact)
    show "orders (snd (post_orders parse_order e uid req_body d))
          = orders d @ [fst (createOrder (gen_order e) data ?before)]"
      by (simp only: run snd_conv createOrder_tables orders_before)
  qed
  have "getUser uid (snd (createOrder (gen_order e) data ?before)) = getUser uid ?before"
    by (rule getUser_users_cong) (simp add: createOrder_tables)
  also have "map_option user.coinBalance (getUser uid ?before) = Some 0"
  proof (cases "0 < insert_order.coinsUsed data")
    case True
    have "getUser uid ?d2 = getUser uid ?d1"
      by (rule getUser_users_cong) (simp add: addCoinTransaction_tables)
    with True assms(2) exact show ?thesis
      by (simp add: getUser_after_updateUserCoins)
  next
    case False
    with assms(2,3) exact show ?thesis by simp
  qed
  finally show "map_option user.coinBalance
      (getUser uid (snd (post_orders parse_order e uid req_body d))) = Some 0"
    by (simp only: run snd_conv)
  have "coin_sum uid (snd (createOrder (gen_order e) data ?before)) = coin_sum uid ?before"
    by (rule coin_sum_cong) (simp add: createOrder_tables)
  also have "coin_sum uid ?before = coin_sum uid d - user.coinBalance u"
  proof (cases "0 < insert_order.coinsUsed data")
    case True
    have "coin_sum uid ?d2 = coin_sum uid d +
        (if coin_transaction.userId
              (fst (addCoinTransaction (gen_transaction e) (redeemed_entry uid data) ?d1)) = uid
         then coin_transaction.amount
              (fst (addCoinTransaction (gen_transaction e) (redeemed_entry uid data) ?d1))
         else 0)"
      by (rule coin_sum_append) (simp add: addCoinTransaction_tables updateUserCoins_tables)
    with True exact show ?thesis
      by (simp add: addCoinTransaction_row redeemed_entry_fields)
  next
    case False
    with assms(3) exact show ?thesis by simp
  qed
  finally show "coin_sum uid (snd (post_orders parse_order e uid req_body d))
      = coin_sum uid d - user.coinBalance u"
    by (simp only: run snd_conv)
qed

theorem redemption_boundary_witness:
  "insertOrderSchema_parse (order_body 100) ''alice''
     = Inr ((order_body 100)\<lparr>insert_order.userId := ''alice''\<rparr>)
   \<and> insertOrderSchema_parse (order_body 101) ''alice''
     = Inr ((order_body 101)\<lparr>insert_order.userId := ''alice''\<rparr>)
   \<and> getUser ''alice'' shop_db = Some alice
   \<and> 0 \<le> user.coinBalance alice
   \<and> \<not> rejects (example_env None) GetUser \<and> \<not> rejects (example_env None) UpdateUserCoins
   \<and> \<not> rejects (example_env None) AddCoinTransaction \<and> \<not> rejects (example_env None) CreateOrder
   \<and> map_option user.coinBalance
       (getUser ''alice'' (snd (post_orders insertOrderSchema_parse (example_env None) ''alice''
                                 (order_body 100) shop_db))) = Some 0
   \<and> post_orders insertOrderSchema_parse (example_env None) ''alice'' (order_body 101) shop_db
       = (Status 400 Not_enough_coins, shop_db)
   \<and> rejects (example_env (Some (GetUser, ''connection lost''))) GetUser
   \<and> post_orders insertOrderSchema_parse (example_env (Some (GetUser, ''connection lost'')))
         ''alice'' (order_body 101) shop_db
       = (Status 400 (Message ''connection lost''), shop_db)"
proof -
  have a: "insertOrderSchema_parse (order_body 100) ''alice''
     = Inr ((order_body 100)\<lparr>insert_order.userId := ''alice''\<rparr>)"
    by (simp add: example_data)
  have b: "insertOrderSchema_parse (order_body 101) ''alice''
     = Inr ((order_body 101)\<lparr>insert_order.userId := ''alice''\<rparr>)"
    by (simp add: example_data)
  have g: "getUser ''alice'' shop_db = Some alice"
    by (simp add: getUser_def first_row_def example_data)
  have n: "0 \<le> user.coinBalance alice" by (simp add: alice_def)
  have v: "user.coinBalance alice = 100" by (simp add: alice_def)
  have f: "\<not> rejects (example_env None) GetUser" "\<not> rejects (example_env None) UpdateUserCoins"
    "\<not> rejects (example_env None) AddCoinTransaction" "\<not> rejects (example_env None) CreateOrder"
    by (simp_all add: example_env_def rejects_def)
  from redemption_boundary [where parse_order = insertOrderSchema_parse, OF a g n,
      where e = "example_env None"] v f
  have exact: "map_option user.coinBalance
       (getUser ''alice'' (snd (post_orders insertOrderSchema_parse (example_env None) ''alice''
                                 (order_body 100) shop_db))) = Some 0"
    by (simp add: order_body_def)
  from redemption_boundary [where parse_order = insertOrderSchema_parse, OF b g n,
      where e = "example_env None"] v f
  have over: "post_orders insertOrderSchema_parse (example_env None) ''alice'' (order_body 101) shop_db
       = (Status 400 Not_enough_coins, shop_db)"
    by (simp add: order_body_def prod_eq_iff)
  have r: "rejects (example_env (Some (GetUser, ''connection lost''))) GetUser"
    "fault_text (example_env (Some (GetUser, ''connection lost''))) = ''connection lost''"
    by (simp_all add: example_env_def rejects_def fault_text_def)
  from redemption_boundary [where parse_order = insertOrderSchema_parse, OF b g n,
      where e = "example_env (Some (GetUser, ''connection lost''))"] v r
  have unread: "post_orders insertOrderSchema_parse
         (example_env (Some (GetUser, ''connection lost''))) ''alice'' (order_body 101) shop_db
       = (Status 400 (Message ''connection lost''), shop_db)"
    by (simp add: order_body_def prod_eq_iff caught_def)
  from a b g n f exact over r(1) unread show ?thesis by simp
qed

end
